theory Spec2Isabelle
  imports Complex_Main "HOL-Library.Char_ord" "HOL-Library.List_Lexorder"
begin

section \<open>HMIS clinical records service (python\_hmis/app.py)\<close>

text \<open>
  The service is a set of Flask request handlers over one SQLite database. Each handler
  is modelled as a function from its request fields, the current UTC timestamp and the
  database to a response and the database it leaves behind (a handler that raises before
  \<open>conn.commit()\<close> leaves the database as it found it: the connection is dropped
  and the open transaction rolls back).

  Conventions of the model:
  \<^item> a Python \<open>str\<close> is a \<open>string\<close> whose characters are code points below 256;
    SQLite compares \<open>TEXT\<close> with the \<open>BINARY\<close> collation, which is the
    lexicographic order on code points;
  \<^item> a form field is a \<open>string option\<close> (\<open>request.form.get\<close> returns \<open>None\<close>
    for a missing field); a text field of a JSON body is a \<open>string option\<close> as well
    (\<open>None\<close>: the key is absent). A JSON body whose text field holds a value of another
    type makes \<open>.strip()\<close> raise before the store is opened; such bodies are outside
    the input type, except for the lab result route, which is given on them as well;
  \<^item> a Python integer is an \<open>int\<close>. An SQLite \<open>INTEGER\<close> is a signed 64-bit value:
    the \<open>sqlite3\<close> module raises \<open>OverflowError\<close> when \<open>execute\<close> is given a Python
    integer outside that range, before the statement runs (\<open>sqlite_int\<close>);
  \<^item> a Python \<open>float\<close> and an SQLite \<open>REAL\<close> are IEEE doubles. The model holds the
    real number that a finite double denotes and computes no floating-point arithmetic:
    \<open>float\<close> and the generated column \<open>bmi\<close> are functions of the runtime, which
    the handlers take as the argument \<open>rt\<close>. Requests on which \<open>float\<close> yields an
    infinity or a NaN are outside the input type;
  \<^item> a nullable column is an \<open>option\<close>;
  \<^item> \<open>datetime.utcnow().isoformat()\<close> is the argument \<open>now\<close>;
  \<^item> a table is the list of its rows in insertion order together with the counter that
    SQLite keeps for an \<open>AUTOINCREMENT\<close> key; \<open>fetchone()\<close> returns the first
    matching row of that list.
\<close>

subsection \<open>Python strings\<close>

definition py_isspace :: "char \<Rightarrow> bool" where
  \<comment> \<open>\<open>str.isspace\<close> on the code points below 256\<close>
  "py_isspace c \<longleftrightarrow>
     c \<in> set [CHR 0x09, CHR 0x0A, CHR 0x0B, CHR 0x0C, CHR 0x0D,
               CHR 0x1C, CHR 0x1D, CHR 0x1E, CHR 0x1F, CHR 0x20, CHR 0x85, CHR 0xA0]"

definition strip :: "string \<Rightarrow> string" where
  "strip s = rev (dropWhile py_isspace (rev (dropWhile py_isspace s)))"

definition or_empty :: "string option \<Rightarrow> string" where
  \<comment> \<open>\<open>(x or "")\<close> for \<open>x\<close> a string or \<open>None\<close>\<close>
  "or_empty x = (case x of None \<Rightarrow> [] | Some v \<Rightarrow> v)"

definition or_default :: "string option \<Rightarrow> string \<Rightarrow> string" where
  \<comment> \<open>\<open>(x or d)\<close>: the empty string is falsy as well\<close>
  "or_default x d = (case x of None \<Rightarrow> d | Some v \<Rightarrow> if v = [] then d else v)"

definition or_none :: "string \<Rightarrow> string option" where
  \<comment> \<open>\<open>(s or None)\<close>\<close>
  "or_none s = (if s = [] then None else Some s)"

definition digit_of :: "char \<Rightarrow> int option" where
  \<comment> \<open>the decimal digits among the code points below 256 are \<open>0\<close> to \<open>9\<close>\<close>
  "digit_of = map_of (zip ''0123456789'' [0, 1, 2, 3, 4, 5, 6, 7, 8, 9])"

fun int_digits :: "int \<Rightarrow> string \<Rightarrow> int option" where
  \<comment> \<open>the digits after the first one; a single underscore may sit between two digits\<close>
  "int_digits acc [] = Some acc"
| "int_digits acc [c] =
     (case digit_of c of None \<Rightarrow> None | Some k \<Rightarrow> Some (10 * acc + k))"
| "int_digits acc (c # d # cs) =
     (if c = CHR ''_''
      then (case digit_of d of None \<Rightarrow> None | Some k \<Rightarrow> int_digits (10 * acc + k) cs)
      else (case digit_of c of None \<Rightarrow> None | Some k \<Rightarrow> int_digits (10 * acc + k) (d # cs)))"

definition int_unsigned :: "string \<Rightarrow> int option" where
  "int_unsigned s =
     (case s of [] \<Rightarrow> None
      | c # cs \<Rightarrow> (case digit_of c of None \<Rightarrow> None | Some k \<Rightarrow> int_digits k cs))"

definition int_isspace :: "char \<Rightarrow> bool" where
  \<comment> \<open>the white space \<open>int\<close> skips around a literal: the ASCII white space of C, and the
      white space above 127, which \<open>int\<close> turns into a blank first. The separators
      \<open>0x1C\<close> to \<open>0x1F\<close> are white space for \<open>str.strip\<close> and not for \<open>int\<close>\<close>
  "int_isspace c \<longleftrightarrow>
     c \<in> set [CHR 0x09, CHR 0x0A, CHR 0x0B, CHR 0x0C, CHR 0x0D, CHR 0x20, CHR 0x85, CHR 0xA0]"

definition int_max_str_digits :: nat where
  \<comment> \<open>\<open>sys.int_max_str_digits\<close>, which the application leaves at the default of CPython\<close>
  "int_max_str_digits = 4300"

definition py_int :: "string \<Rightarrow> int option" where
  \<comment> \<open>\<open>int(s)\<close> for a string; \<open>None\<close> stands for \<open>ValueError\<close>, which \<open>int\<close> also
      raises for a literal of more than \<open>int_max_str_digits\<close> digits\<close>
  "py_int s =
     (case rev (dropWhile int_isspace (rev (dropWhile int_isspace s))) of [] \<Rightarrow> None
      | c # cs \<Rightarrow>
          let lit = (if c = CHR ''-'' \<or> c = CHR ''+'' then cs else c # cs)
          in if int_max_str_digits < length (filter (\<lambda>d. d \<noteq> CHR ''_'') lit) then None
             else if c = CHR ''-'' then map_option uminus (int_unsigned lit)
             else int_unsigned lit)"

subsection \<open>Rows and tables\<close>

record patient =
  p_usn :: string
  p_full_name :: string
  p_age :: int
  p_gender :: string
  p_contact :: string
  p_address :: string

record vitals_row =
  v_id :: int
  v_usn :: string
  v_weight :: real
  v_height :: real
  v_bmi :: "real option"
  v_blood_pressure_systolic :: int
  v_blood_pressure_diastolic :: int
  v_heart_rate :: int
  v_temperature :: real
  v_respiratory_rate :: "int option"
  v_oxygen_saturation :: "int option"
  v_notes :: "string option"
  v_recorded_at :: string
  v_recorded_by :: string

record prescription =
  rx_id :: int
  rx_usn :: string
  rx_notes :: string
  rx_prescribed_at :: string

record encounter =
  en_id :: int
  en_usn :: string
  en_encounter_dt :: string
  en_encounter_type :: string
  en_clinician :: "string option"
  en_reason :: "string option"
  en_notes :: "string option"

record problem =
  pb_id :: int
  pb_usn :: string
  pb_code :: "string option"
  pb_description :: string
  pb_onset_date :: "string option"
  pb_status :: string
  pb_recorded_at :: string

record allergy =
  al_id :: int
  al_usn :: string
  al_substance :: string
  al_reaction :: "string option"
  al_severity :: "string option"
  al_recorded_at :: string

record medication =
  m_id :: int
  m_name :: string
  m_generic_name :: "string option"
  m_form :: "string option"
  m_strength :: "string option"
  m_is_active :: int

record prescription_item =
  pi_id :: int
  pi_prescription_id :: int
  pi_medication_id :: int
  pi_dose :: "string option"
  pi_route :: "string option"
  pi_frequency :: "string option"
  pi_duration_days :: "int option"
  pi_instructions :: "string option"

record lab_test =
  lt_id :: int
  lt_code :: string
  lt_name :: string
  lt_specimen :: "string option"
  lt_unit :: "string option"
  lt_ref_range :: "string option"
  lt_is_active :: int

record lab_order =
  lo_id :: int
  lo_usn :: string
  lo_encounter_id :: "int option"
  lo_ordered_at :: string
  lo_status :: string
  lo_notes :: "string option"

record lab_order_item =
  loi_id :: int
  loi_lab_order_id :: int
  loi_lab_test_id :: int
  loi_status :: string
  loi_result_value :: "string option"
  loi_result_notes :: "string option"
  loi_result_at :: "string option"

record appointment =
  ap_id :: int
  ap_usn :: string
  ap_starts_at :: string
  ap_ends_at :: string
  ap_status :: string
  ap_title :: "string option"
  ap_clinician :: "string option"
  ap_notes :: "string option"

text \<open>
  The tables \<open>inventory_items\<close>, \<open>inventory_stock\<close>, \<open>inventory_movements\<close> and
  \<open>audit_logs\<close> are created by \<open>init_db\<close> and used by no handler; they are left out.
  For a table with an \<open>AUTOINCREMENT\<close> key the database keeps the largest key ever
  used (\<open>sqlite_sequence\<close>); the next key is one more than the larger of that counter
  and the largest key in the table.
\<close>

record db =
  patients :: "patient list"
  vitals :: "vitals_row list"
  vitals_seq :: int
  prescriptions :: "prescription list"
  prescriptions_seq :: int
  encounters :: "encounter list"
  problems :: "problem list"
  allergies :: "allergy list"
  medications :: "medication list"
  medications_seq :: int
  prescription_items :: "prescription_item list"
  prescription_items_seq :: int
  lab_tests :: "lab_test list"
  lab_tests_seq :: int
  lab_orders :: "lab_order list"
  lab_orders_seq :: int
  lab_order_items :: "lab_order_item list"
  lab_order_items_seq :: int
  appointments :: "appointment list"
  appointments_seq :: int

definition empty_db :: db where
  \<comment> \<open>the tables right after the \<open>CREATE TABLE\<close> statements\<close>
  "empty_db = \<lparr> patients = [], vitals = [], vitals_seq = 0,
     prescriptions = [], prescriptions_seq = 0, encounters = [], problems = [],
     allergies = [], medications = [], medications_seq = 0,
     prescription_items = [], prescription_items_seq = 0,
     lab_tests = [], lab_tests_seq = 0, lab_orders = [], lab_orders_seq = 0,
     lab_order_items = [], lab_order_items_seq = 0,
     appointments = [], appointments_seq = 0 \<rparr>"

definition next_rowid :: "int list \<Rightarrow> int \<Rightarrow> int" where
  "next_rowid ids sq = fold max ids (max sq 0) + 1"

definition patient_exists :: "string \<Rightarrow> db \<Rightarrow> bool" where
  \<comment> \<open>\<open>SELECT 1 FROM patients WHERE usn=?\<close> returns a row\<close>
  "patient_exists u s \<longleftrightarrow> (\<exists>p \<in> set (patients s). p_usn p = u)"

subsection \<open>Responses\<close>

datatype exn =
    NameError string
  | ValueError
  | TypeError
  | AttributeError
  | OverflowError
  | IndexError
  | IntegrityError
  | OperationalError

datatype response =
    Redirect_msg string       \<comment> \<open>\<open>redirect(url_for("index", m=...))\<close>\<close>
  | Redirect_err string       \<comment> \<open>\<open>redirect(url_for("index", e=...))\<close>\<close>
  | Json_error nat string     \<comment> \<open>\<open>jsonify({"error": ...}), status\<close>\<close>
  | Json_message nat string   \<comment> \<open>\<open>jsonify({"message": ...}), status\<close>\<close>
  | Json_id nat int           \<comment> \<open>\<open>jsonify({"id": ...}), status\<close>\<close>
  | Json_ok                   \<comment> \<open>\<open>jsonify({"ok": True})\<close>\<close>
  | Uncaught exn              \<comment> \<open>the handler raised; the transaction is rolled back\<close>

definition sqlite_int :: "int \<Rightarrow> bool" where
  \<comment> \<open>a Python integer that \<open>execute\<close> can bind; for any other it raises
      \<open>OverflowError\<close> ("Python int too large to convert to SQLite INTEGER")\<close>
  "sqlite_int n \<longleftrightarrow> - (2 ^ 63) \<le> n \<and> n < 2 ^ 63"

definition sqlite_int_opt :: "int option \<Rightarrow> bool" where
  \<comment> \<open>\<open>None\<close> is bound as \<open>NULL\<close>\<close>
  "sqlite_int_opt x = (case x of None \<Rightarrow> True | Some n \<Rightarrow> sqlite_int n)"

subsection \<open>JSON values\<close>

text \<open>
  A field of a JSON body that is read without a text method (\<open>age\<close>, the vitals
  measurements) may hold any JSON value. \<open>JNull\<close> is what \<open>data.get\<close> returns for
  \<open>null\<close> and for a missing key, \<open>JReal\<close> is a number with a fraction or an
  exponent (a finite double), and \<open>JCompound\<close> is an array or an object, of which the
  handlers see only whether it is empty.
\<close>

datatype jval = JNull | JBool bool | JInt int | JReal real | JStr string | JCompound bool

definition truthy :: "jval \<Rightarrow> bool" where
  \<comment> \<open>\<open>bool(v)\<close>\<close>
  "truthy v =
     (case v of JNull \<Rightarrow> False | JBool b \<Rightarrow> b | JInt n \<Rightarrow> n \<noteq> 0 | JReal r \<Rightarrow> r \<noteq> 0
      | JStr t \<Rightarrow> t \<noteq> [] | JCompound nonempty \<Rightarrow> nonempty)"

subsection \<open>Lab order workflow\<close>

record lab_order_json =
  loj_usn :: "string option"
  loj_test_code :: "string option"
  loj_notes :: "string option"

definition api_create_lab_order :: "lab_order_json \<Rightarrow> string \<Rightarrow> db \<Rightarrow> response \<times> db" where
  "api_create_lab_order data now s =
     (let usn = strip (or_empty (loj_usn data));
          test_code = strip (or_empty (loj_test_code data));
          notes = or_none (strip (or_empty (loj_notes data)))
      in if \<not> (usn \<noteq> [] \<and> test_code \<noteq> [])
         then (Json_error 400 ''usn and test_code required'', s)
         else if \<not> patient_exists usn s
         then (Json_error 404 ''Patient not found'', s)
         else (case find (\<lambda>t. lt_code t = test_code \<and> lt_is_active t = 1) (lab_tests s) of
                 None \<Rightarrow> (Json_error 404 ''Lab test not found'', s)
               | Some test \<Rightarrow>
                   let order_id = next_rowid (map lo_id (lab_orders s)) (lab_orders_seq s);
                       item_id = next_rowid (map loi_id (lab_order_items s))
                                   (lab_order_items_seq s)
                   in (Json_id 201 order_id,
                       s\<lparr> lab_orders := lab_orders s @
                             [\<lparr> lo_id = order_id, lo_usn = usn, lo_encounter_id = None,
                                lo_ordered_at = now, lo_status = ''Ordered'',
                                lo_notes = notes \<rparr>],
                           lab_orders_seq := order_id,
                           lab_order_items := lab_order_items s @
                             [\<lparr> loi_id = item_id, loi_lab_order_id = order_id,
                                loi_lab_test_id = lt_id test, loi_status = ''Ordered'',
                                loi_result_value = None, loi_result_notes = None,
                                loi_result_at = None \<rparr>],
                           lab_order_items_seq := item_id \<rparr>)))"

record lab_result_json =
  lrj_result_value :: "string option"
  lrj_result_notes :: "string option"

definition set_item_result ::
  "int \<Rightarrow> string \<Rightarrow> string option \<Rightarrow> string \<Rightarrow> lab_order_item \<Rightarrow> lab_order_item" where
  \<comment> \<open>the first \<open>UPDATE\<close>, on one row\<close>
  "set_item_result item_id val notes now i =
     (if loi_id i = item_id
      then i\<lparr> loi_result_value := Some val, loi_result_notes := notes,
              loi_result_at := Some now, loi_status := ''Completed'' \<rparr>
      else i)"

definition all_items_completed :: "lab_order_item list \<Rightarrow> int \<Rightarrow> bool" where
  \<comment> \<open>\<open>NOT EXISTS (SELECT 1 FROM lab_order_items WHERE lab_order_id = ? AND status <> 'Completed')\<close>\<close>
  "all_items_completed items oid \<longleftrightarrow>
     \<not> (\<exists>i \<in> set items. loi_lab_order_id i = oid \<and> loi_status i \<noteq> ''Completed'')"

definition owning_order :: "lab_order_item list \<Rightarrow> int \<Rightarrow> int option" where
  \<comment> \<open>\<open>(SELECT lab_order_id FROM lab_order_items WHERE id = ?)\<close>: \<open>NULL\<close> without a row\<close>
  "owning_order items item_id = map_option loi_lab_order_id (find (\<lambda>i. loi_id i = item_id) items)"

definition recompute_order :: "lab_order_item list \<Rightarrow> int option \<Rightarrow> lab_order \<Rightarrow> lab_order" where
  \<comment> \<open>the second \<open>UPDATE\<close>, on one row\<close>
  "recompute_order items owner ord =
     (if owner = Some (lo_id ord)
      then ord\<lparr> lo_status := (if all_items_completed items (lo_id ord)
                               then ''Completed'' else lo_status ord) \<rparr>
      else ord)"

definition api_set_lab_result :: "int \<Rightarrow> lab_result_json \<Rightarrow> string \<Rightarrow> db \<Rightarrow> response \<times> db" where
  \<comment> \<open>the route takes any string of digits as \<open>item_id\<close>; the first \<open>execute\<close> binds it\<close>
  "api_set_lab_result item_id data now s =
     (let val = strip (or_empty (lrj_result_value data));
          notes = or_none (strip (or_empty (lrj_result_notes data)))
      in if \<not> sqlite_int item_id
         then (Uncaught OverflowError, s)
         else
           let items' = map (set_item_result item_id val notes now) (lab_order_items s);
               owner = owning_order items' item_id
           in (Json_ok,
               s\<lparr> lab_order_items := items',
                   lab_orders := map (recompute_order items' owner) (lab_orders s) \<rparr>))"

text \<open>
  The route reads both fields with \<open>(data.get(k) or "").strip()\<close>. On a body whose two
  fields hold any JSON value, a false value gives way to the empty string, and a true
  value that is no string has no \<open>strip\<close>: the call raises \<open>AttributeError\<close> before the
  store is opened. \<open>api_set_lab_result\<close> above is the route on the bodies whose fields
  are text or absent, \<open>api_set_lab_result_request\<close> is the route on every body.
\<close>

definition text_or_false :: "jval \<Rightarrow> bool" where
  \<comment> \<open>the values \<open>v\<close> for which \<open>(v or "").strip()\<close> is defined\<close>
  "text_or_false v \<longleftrightarrow> (case v of JStr t \<Rightarrow> True | _ \<Rightarrow> \<not> truthy v)"

definition text_field :: "jval \<Rightarrow> string option" where
  \<comment> \<open>\<open>(v or "")\<close> for such a value; \<open>None\<close> stands for the \<open>""\<close> that replaces a
      false value\<close>
  "text_field v = (case v of JStr t \<Rightarrow> if t = [] then None else Some t | _ \<Rightarrow> None)"

record lab_result_body =
  lrb_result_value :: jval
  lrb_result_notes :: jval

definition api_set_lab_result_request ::
  "int \<Rightarrow> lab_result_body \<Rightarrow> string \<Rightarrow> db \<Rightarrow> response \<times> db" where
  "api_set_lab_result_request item_id body now s =
     (if \<not> (text_or_false (lrb_result_value body) \<and> text_or_false (lrb_result_notes body))
      then (Uncaught AttributeError, s)
      else api_set_lab_result item_id
             \<lparr> lrj_result_value = text_field (lrb_result_value body),
               lrj_result_notes = text_field (lrb_result_notes body) \<rparr> now s)"

subsection \<open>Patient registry\<close>

record patient_form =
  pf_usn :: "string option"
  pf_full_name :: "string option"
  pf_age :: "string option"
  pf_gender :: "string option"
  pf_contact :: "string option"
  pf_address :: "string option"

definition patient_create :: "patient_form \<Rightarrow> db \<Rightarrow> response \<times> db" where
  \<comment> \<open>the \<open>INSERT\<close> binds \<open>age\<close> before it runs; the handler catches
      \<open>sqlite3.IntegrityError\<close> only\<close>
  "patient_create form s =
     (let usn = strip (or_empty (pf_usn form));
          full_name = strip (or_empty (pf_full_name form));
          age_raw = strip (or_empty (pf_age form));
          gender = strip (or_empty (pf_gender form));
          contact = strip (or_empty (pf_contact form));
          address = strip (or_empty (pf_address form))
      in if \<not> (usn \<noteq> [] \<and> full_name \<noteq> [] \<and> age_raw \<noteq> [] \<and> gender \<noteq> []
               \<and> contact \<noteq> [] \<and> address \<noteq> [])
         then (Redirect_err ''All patient fields are required'', s)
         else (case py_int age_raw of
                 None \<Rightarrow> (Redirect_err ''Age must be a number'', s)
               | Some age \<Rightarrow>
                   if \<not> sqlite_int age
                   then (Uncaught OverflowError, s)
                   else if patient_exists usn s
                   then (Redirect_err ''USN must be unique'', s)
                   else (Redirect_msg ''Patient created'',
                         s\<lparr> patients := patients s @
                               [\<lparr> p_usn = usn, p_full_name = full_name, p_age = age,
                                  p_gender = gender, p_contact = contact,
                                  p_address = address \<rparr>] \<rparr>)))"

definition patient_update :: "patient_form \<Rightarrow> db \<Rightarrow> response \<times> db" where
  "patient_update form s =
     (let usn = strip (or_empty (pf_usn form));
          full_name = strip (or_empty (pf_full_name form));
          contact = strip (or_empty (pf_contact form));
          address = strip (or_empty (pf_address form));
          gender = strip (or_empty (pf_gender form));
          age_raw = strip (or_empty (pf_age form))
      in if \<not> (usn \<noteq> [] \<and> full_name \<noteq> [] \<and> contact \<noteq> [] \<and> address \<noteq> []
               \<and> gender \<noteq> [] \<and> age_raw \<noteq> [])
         then (Redirect_err ''All fields required for update'', s)
         else (case py_int age_raw of
                 None \<Rightarrow> (Redirect_err ''Age must be a number'', s)
               | Some age \<Rightarrow>
                   if \<not> sqlite_int age
                   then (Uncaught OverflowError, s)
                   else
                   (Redirect_msg ''Patient updated'',
                    s\<lparr> patients :=
                          map (\<lambda>p. if p_usn p = usn
                                    then p\<lparr> p_full_name := full_name, p_age := age,
                                            p_gender := gender, p_contact := contact,
                                            p_address := address \<rparr>
                                    else p) (patients s) \<rparr>)))"

text \<open>
  \<open>DELETE FROM patients WHERE usn=?\<close> with \<open>PRAGMA foreign_keys = ON\<close>: every deleted
  patient row takes the rows that reference it along (\<open>ON DELETE CASCADE\<close>), a deleted
  prescription takes its items, a deleted lab order takes its items, and a lab order that
  stays loses its reference to a deleted encounter (\<open>ON DELETE SET NULL\<close>). When no patient
  row is deleted, no action fires.
\<close>

definition clear_encounter :: "int list \<Rightarrow> lab_order \<Rightarrow> lab_order" where
  \<comment> \<open>\<open>ON DELETE SET NULL\<close> of \<open>lab_orders.encounter_id\<close>, on one row\<close>
  "clear_encounter gone ord =
     (case lo_encounter_id ord of None \<Rightarrow> ord
      | Some e \<Rightarrow> if e \<in> set gone then ord\<lparr> lo_encounter_id := None \<rparr> else ord)"

definition cascade_delete :: "string \<Rightarrow> db \<Rightarrow> db" where
  "cascade_delete usn s =
     (if \<not> patient_exists usn s then s
      else
        let gone_rx = map rx_id (filter (\<lambda>r. rx_usn r = usn) (prescriptions s));
            gone_en = map en_id (filter (\<lambda>e. en_usn e = usn) (encounters s));
            gone_lo = map lo_id (filter (\<lambda>ord. lo_usn ord = usn) (lab_orders s))
        in s\<lparr> patients := filter (\<lambda>p. p_usn p \<noteq> usn) (patients s),
               vitals := filter (\<lambda>v. v_usn v \<noteq> usn) (vitals s),
               prescriptions := filter (\<lambda>r. rx_usn r \<noteq> usn) (prescriptions s),
               prescription_items :=
                 filter (\<lambda>i. pi_prescription_id i \<notin> set gone_rx) (prescription_items s),
               encounters := filter (\<lambda>e. en_usn e \<noteq> usn) (encounters s),
               problems := filter (\<lambda>b. pb_usn b \<noteq> usn) (problems s),
               allergies := filter (\<lambda>a. al_usn a \<noteq> usn) (allergies s),
               lab_orders :=
                 map (clear_encounter gone_en)
                   (filter (\<lambda>ord. lo_usn ord \<noteq> usn) (lab_orders s)),
               lab_order_items :=
                 filter (\<lambda>i. loi_lab_order_id i \<notin> set gone_lo) (lab_order_items s),
               appointments := filter (\<lambda>a. ap_usn a \<noteq> usn) (appointments s) \<rparr>)"

definition patient_delete :: "string \<Rightarrow> db \<Rightarrow> response \<times> db" where
  "patient_delete usn s = (Redirect_msg ''Patient deleted'', cascade_delete usn s)"

definition int_of_jval :: "jval \<Rightarrow> int option" where
  \<comment> \<open>\<open>int(v)\<close>; \<open>None\<close> stands for \<open>ValueError\<close> or \<open>TypeError\<close>, which every caller
      catches together\<close>
  "int_of_jval v =
     (case v of JNull \<Rightarrow> None
      | JBool b \<Rightarrow> Some (if b then 1 else 0)
      | JInt n \<Rightarrow> Some n
      | JReal r \<Rightarrow> Some (if 0 \<le> r then \<lfloor>r\<rfloor> else \<lceil>r\<rceil>)
      | JStr t \<Rightarrow> py_int t
      | JCompound nonempty \<Rightarrow> None)"

text \<open>
  The floating-point operations belong to the Python runtime and to SQLite; the handlers
  that reach them take them as the argument \<open>rt\<close>.
\<close>

record runtime =
  py_float :: "string \<Rightarrow> real option"
    \<comment> \<open>\<open>float(s)\<close> for a string; \<open>None\<close> stands for \<open>ValueError\<close>\<close>
  py_float_of_int :: "int \<Rightarrow> real option"
    \<comment> \<open>\<open>float(n)\<close> for an integer, which rounds to the nearest double; \<open>None\<close>
        stands for \<open>OverflowError\<close>\<close>
  generated_bmi :: "real \<Rightarrow> real \<Rightarrow> real option"
    \<comment> \<open>the value of the generated column
        \<open>weight / ((height/100.0) * (height/100.0))\<close> that SQLite stores for a weight and a
        height; \<open>None\<close> stands for \<open>NULL\<close>\<close>

definition float_of_jval :: "runtime \<Rightarrow> jval \<Rightarrow> exn + real" where
  \<comment> \<open>\<open>float(v)\<close>\<close>
  "float_of_jval rt v =
     (case v of JNull \<Rightarrow> Inl TypeError
      | JBool b \<Rightarrow> Inr (if b then 1 else 0)
      | JInt n \<Rightarrow> (case py_float_of_int rt n of None \<Rightarrow> Inl OverflowError | Some r \<Rightarrow> Inr r)
      | JReal r \<Rightarrow> Inr r
      | JStr t \<Rightarrow> (case py_float rt t of None \<Rightarrow> Inl ValueError | Some r \<Rightarrow> Inr r)
      | JCompound nonempty \<Rightarrow> Inl TypeError)"

record patient_json =
  pj_usn :: "string option"
  pj_fullName :: "string option"
  pj_age :: jval
  pj_gender :: "string option"
  pj_phone :: "string option"
  pj_address :: "string option"
  pj_email :: "string option"

definition api_patients_post :: "patient_json \<Rightarrow> db \<Rightarrow> response \<times> db" where
  \<comment> \<open>\<open>int(age)\<close> reads the JSON value as it came, without \<open>strip\<close>\<close>
  "api_patients_post data s =
     (let usn = strip (or_empty (pj_usn data));
          full_name = strip (or_empty (pj_fullName data));
          age = pj_age data;
          gender = strip (or_empty (pj_gender data));
          contact = strip (or_empty (pj_phone data));
          address = strip (or_empty (pj_address data))
      in if \<not> (usn \<noteq> [] \<and> full_name \<noteq> [] \<and> truthy age \<and> gender \<noteq> [])
         then (Json_error 400 ''Required fields missing'', s)
         else (case int_of_jval age of
                 None \<Rightarrow> (Json_error 400 ''Age must be a number'', s)
               | Some age_i \<Rightarrow>
                   if \<not> sqlite_int age_i
                   then (Uncaught OverflowError, s)
                   else if patient_exists usn s
                   then (Json_error 409 ''USN already exists'', s)
                   else (Json_message 201 ''Patient created successfully'',
                         s\<lparr> patients := patients s @
                               [\<lparr> p_usn = usn, p_full_name = full_name, p_age = age_i,
                                  p_gender = gender, p_contact = contact,
                                  p_address = address \<rparr>] \<rparr>)))"

subsection \<open>Vitals\<close>

definition insert_vitals ::
  "runtime \<Rightarrow> string \<Rightarrow> real \<Rightarrow> real \<Rightarrow> int \<Rightarrow> int \<Rightarrow> int \<Rightarrow> real \<Rightarrow> int option
     \<Rightarrow> int option \<Rightarrow> string \<Rightarrow> string \<Rightarrow> db \<Rightarrow> db" where
  \<comment> \<open>\<open>INSERT INTO vitals(usn, weight, height, ..., notes, recorded_at)\<close>; the store
      fills the generated column \<open>bmi\<close>\<close>
  "insert_vitals rt usn weight height bp_sys bp_dia hr temp resp_rate o2_sat notes now s =
     (let new_id = next_rowid (map v_id (vitals s)) (vitals_seq s)
      in s\<lparr> vitals := vitals s @
               [\<lparr> v_id = new_id, v_usn = usn, v_weight = weight, v_height = height,
                  v_bmi = generated_bmi rt weight height,
                  v_blood_pressure_systolic = bp_sys, v_blood_pressure_diastolic = bp_dia,
                  v_heart_rate = hr, v_temperature = temp, v_respiratory_rate = resp_rate,
                  v_oxygen_saturation = o2_sat, v_notes = Some notes, v_recorded_at = now,
                  v_recorded_by = ''System User'' \<rparr>],
             vitals_seq := new_id \<rparr>)"

record vitals_form =
  vf_usn :: "string option"
  vf_weight :: "string option"
  vf_height :: "string option"
  vf_blood_pressure_systolic :: "string option"
  vf_blood_pressure_diastolic :: "string option"
  vf_heart_rate :: "string option"
  vf_temperature :: "string option"
  vf_respiratory_rate :: "string option"
  vf_oxygen_saturation :: "string option"
  vf_notes :: "string option"

definition opt_int :: "string \<Rightarrow> int option option" where
  \<comment> \<open>\<open>int(x) if x else None\<close>; the outer \<open>None\<close> stands for \<open>ValueError\<close>\<close>
  "opt_int x = (if x = [] then Some None else map_option Some (py_int x))"

definition vitals_create ::
  "runtime \<Rightarrow> vitals_form \<Rightarrow> string \<Rightarrow> db \<Rightarrow> response \<times> db" where
  \<comment> \<open>the patient is looked up first; the \<open>INSERT\<close> then binds the five integers\<close>
  "vitals_create rt form now s =
     (let usn = strip (or_empty (vf_usn form));
          weight = strip (or_default (vf_weight form) ''0'');
          height = strip (or_default (vf_height form) ''0'');
          bp_systolic = strip (or_default (vf_blood_pressure_systolic form) ''0'');
          bp_diastolic = strip (or_default (vf_blood_pressure_diastolic form) ''0'');
          heart_rate = strip (or_default (vf_heart_rate form) ''0'');
          temperature = strip (or_default (vf_temperature form) ''0'');
          respiratory_rate = strip (or_empty (vf_respiratory_rate form));
          oxygen_saturation = strip (or_empty (vf_oxygen_saturation form));
          notes = strip (or_empty (vf_notes form))
      in if \<not> (usn \<noteq> [] \<and> weight \<noteq> [] \<and> height \<noteq> [] \<and> bp_systolic \<noteq> []
               \<and> bp_diastolic \<noteq> [] \<and> heart_rate \<noteq> [] \<and> temperature \<noteq> [])
         then (Redirect_err ''Required vitals fields missing'', s)
         else
           (case (py_float rt weight, py_float rt height, py_int bp_systolic,
                  py_int bp_diastolic, py_int heart_rate, py_float rt temperature,
                  opt_int respiratory_rate, opt_int oxygen_saturation) of
              (Some weight_f, Some height_f, Some bp_sys_i, Some bp_dia_i, Some hr_i,
               Some temp_f, Some resp_rate_i, Some o2_sat_i) \<Rightarrow>
                if \<not> patient_exists usn s
                then (Redirect_err ''Patient not found'', s)
                else if \<not> (sqlite_int bp_sys_i \<and> sqlite_int bp_dia_i \<and> sqlite_int hr_i
                            \<and> sqlite_int_opt resp_rate_i \<and> sqlite_int_opt o2_sat_i)
                then (Uncaught OverflowError, s)
                else (Redirect_msg ''Vitals saved'',
                      insert_vitals rt usn weight_f height_f bp_sys_i bp_dia_i hr_i temp_f
                        resp_rate_i o2_sat_i notes now s)
            | _ \<Rightarrow> (Redirect_err ''Vitals must be numeric'', s)))"

record vitals_json =
  vj_usn :: "string option"
  vj_weight :: jval
  vj_height :: jval
  vj_bloodPressureSystolic :: jval
  vj_bloodPressureDiastolic :: jval
  vj_heartRate :: jval
  vj_temperature :: jval
  vj_respiratoryRate :: jval
  vj_oxygenSaturation :: jval
  vj_notes :: "string option"

definition opt_int_jval :: "jval \<Rightarrow> int option option" where
  \<comment> \<open>\<open>int(data[k]) if data.get(k) else None\<close>\<close>
  "opt_int_jval v = (if truthy v then map_option Some (int_of_jval v) else Some None)"

definition invalid_numeric :: "exn \<Rightarrow> db \<Rightarrow> response \<times> db" where
  \<comment> \<open>\<open>except (ValueError, TypeError)\<close>: any other exception leaves the handler\<close>
  "invalid_numeric e s =
     (if e = ValueError \<or> e = TypeError then (Json_error 400 ''Invalid numeric values'', s)
      else (Uncaught e, s))"

definition api_vitals_post ::
  "runtime \<Rightarrow> vitals_json \<Rightarrow> string \<Rightarrow> db \<Rightarrow> response \<times> db" where
  \<comment> \<open>the conversions run in the order of the source, and the first that raises decides\<close>
  "api_vitals_post rt data now s =
     (let usn = strip (or_empty (vj_usn data))
      in if usn = [] \<or> \<not> (truthy (vj_weight data) \<and> truthy (vj_height data)
               \<and> truthy (vj_bloodPressureSystolic data)
               \<and> truthy (vj_bloodPressureDiastolic data)
               \<and> truthy (vj_heartRate data) \<and> truthy (vj_temperature data))
         then (Json_error 400 ''Required vitals fields missing'', s)
         else
           (case float_of_jval rt (vj_weight data) of Inl e \<Rightarrow> invalid_numeric e s
            | Inr weight \<Rightarrow>
           (case float_of_jval rt (vj_height data) of Inl e \<Rightarrow> invalid_numeric e s
            | Inr height \<Rightarrow>
           (case (int_of_jval (vj_bloodPressureSystolic data),
                  int_of_jval (vj_bloodPressureDiastolic data),
                  int_of_jval (vj_heartRate data)) of
              (Some bp_sys, Some bp_dia, Some heart_rate) \<Rightarrow>
                (case float_of_jval rt (vj_temperature data) of Inl e \<Rightarrow> invalid_numeric e s
                 | Inr temperature \<Rightarrow>
                (case (opt_int_jval (vj_respiratoryRate data),
                       opt_int_jval (vj_oxygenSaturation data)) of
                   (Some resp_rate, Some o2_sat) \<Rightarrow>
                     if \<not> patient_exists usn s
                     then (Json_error 404 ''Patient not found'', s)
                     else if \<not> (sqlite_int bp_sys \<and> sqlite_int bp_dia \<and> sqlite_int heart_rate
                                 \<and> sqlite_int_opt resp_rate \<and> sqlite_int_opt o2_sat)
                     then (Uncaught OverflowError, s)
                     else (Json_message 201 ''Vitals recorded successfully'',
                           insert_vitals rt usn weight height bp_sys bp_dia heart_rate
                             temperature resp_rate o2_sat (strip (or_empty (vj_notes data)))
                             now s)
                 | _ \<Rightarrow> (Json_error 400 ''Invalid numeric values'', s)))
            | _ \<Rightarrow> (Json_error 400 ''Invalid numeric values'', s)))))"

record legacy_vitals_form =
  lf_usn :: "string option"
  lf_blood_pressure :: "string option"
  lf_pulse :: "string option"
  lf_temperature :: "string option"
  lf_weight :: "string option"
  lf_height :: "string option"

definition vitals_create_legacy ::
  "runtime \<Rightarrow> legacy_vitals_form \<Rightarrow> db \<Rightarrow> response \<times> db" where
  \<comment> \<open>the \<open>INSERT\<close> names the columns \<open>blood_pressure\<close> and \<open>pulse\<close>, which the
      \<open>vitals\<close> table of \<open>init_db\<close> does not have: SQLite refuses the statement\<close>
  "vitals_create_legacy rt form s =
     (let usn = strip (or_empty (lf_usn form));
          bp = strip (or_empty (lf_blood_pressure form));
          pulse = strip (or_default (lf_pulse form) ''0'');
          temp = strip (or_default (lf_temperature form) ''0'');
          weight = strip (or_default (lf_weight form) ''0'');
          height = strip (or_default (lf_height form) ''0'')
      in if \<not> (usn \<noteq> [] \<and> bp \<noteq> [] \<and> pulse \<noteq> [] \<and> temp \<noteq> [] \<and> weight \<noteq> []
               \<and> height \<noteq> [])
         then (Redirect_err ''All vitals are required'', s)
         else
           (case (py_int pulse, py_float rt temp, py_float rt weight, py_float rt height) of
              (Some pulse_i, Some temp_f, Some weight_f, Some height_f) \<Rightarrow>
                if \<not> patient_exists usn s
                then (Redirect_err ''Patient not found'', s)
                else (Uncaught OperationalError, s)
            | _ \<Rightarrow> (Redirect_err ''Vitals must be numeric'', s)))"

subsection \<open>Prescriptions and the medication catalog\<close>

definition insert_prescription :: "string \<Rightarrow> string \<Rightarrow> string \<Rightarrow> db \<Rightarrow> db" where
  \<comment> \<open>\<open>INSERT INTO prescriptions(usn, notes, prescribed_at)\<close>\<close>
  "insert_prescription usn notes now s =
     (let new_id = next_rowid (map rx_id (prescriptions s)) (prescriptions_seq s)
      in s\<lparr> prescriptions := prescriptions s @
               [\<lparr> rx_id = new_id, rx_usn = usn, rx_notes = notes, rx_prescribed_at = now \<rparr>],
             prescriptions_seq := new_id \<rparr>)"

record prescription_form =
  rf_usn :: "string option"
  rf_notes :: "string option"

definition prescription_create :: "prescription_form \<Rightarrow> string \<Rightarrow> db \<Rightarrow> response \<times> db" where
  "prescription_create form now s =
     (let usn = strip (or_empty (rf_usn form));
          notes = strip (or_empty (rf_notes form))
      in if \<not> (usn \<noteq> [] \<and> notes \<noteq> [])
         then (Redirect_err ''USN and notes required'', s)
         else if \<not> patient_exists usn s
         then (Redirect_err ''Patient not found'', s)
         else (Redirect_msg ''Prescription saved'', insert_prescription usn notes now s))"

fun show_nat :: "nat \<Rightarrow> string" where
  \<comment> \<open>\<open>str(n)\<close> for a natural number\<close>
  "show_nat n =
     (if n < 10 then [''0123456789'' ! n]
      else show_nat (n div 10) @ [''0123456789'' ! (n mod 10)])"

declare show_nat.simps [simp del]

record med_json =
  mj_name :: "string option"
  mj_dosage :: "string option"
  mj_frequency :: "string option"
  mj_duration :: "string option"
  mj_instructions :: "string option"

definition med_line :: "nat \<times> med_json \<Rightarrow> string" where
  \<comment> \<open>the text one entry of \<open>enumerate(medications, 1)\<close> adds to the notes\<close>
  "med_line im =
     (case im of (i, med) \<Rightarrow>
        if or_empty (mj_name med) \<noteq> [] \<and> or_empty (mj_dosage med) \<noteq> []
           \<and> or_empty (mj_frequency med) \<noteq> []
        then show_nat i @ ''. '' @ or_empty (mj_name med) @ '' - ''
             @ or_empty (mj_dosage med) @ '', '' @ or_empty (mj_frequency med)
             @ (if or_empty (mj_duration med) \<noteq> []
                then '', for '' @ or_empty (mj_duration med) else [])
             @ (if or_empty (mj_instructions med) \<noteq> []
                then '' ('' @ or_empty (mj_instructions med) @ '')'' else [])
             @ [CHR 0x0A]
        else [])"

record prescription_json =
  rj_usn :: "string option"
  rj_diagnosis :: "string option"
  rj_medications :: "med_json list"
  rj_notes :: "string option"
  rj_followUpDate :: "string option"

definition prescription_notes :: "string \<Rightarrow> med_json list \<Rightarrow> string \<Rightarrow> string \<Rightarrow> string" where
  "prescription_notes diagnosis meds notes follow_up_date =
     ''Diagnosis: '' @ diagnosis @ [CHR 0x0A, CHR 0x0A]
     @ (if meds \<noteq> []
        then ''Medications:'' @ [CHR 0x0A]
             @ concat (map med_line (zip [1 ..< Suc (length meds)] meds))
        else [])
     @ (if notes \<noteq> [] then [CHR 0x0A] @ ''Additional Notes: '' @ notes else [])
     @ (if follow_up_date \<noteq> []
        then [CHR 0x0A] @ ''Follow-up Date: '' @ follow_up_date else [])"

definition api_prescriptions_post ::
  "prescription_json \<Rightarrow> string \<Rightarrow> db \<Rightarrow> response \<times> db" where
  "api_prescriptions_post data now s =
     (let usn = strip (or_empty (rj_usn data));
          diagnosis = strip (or_empty (rj_diagnosis data));
          meds = rj_medications data;
          notes = strip (or_empty (rj_notes data));
          follow_up_date = strip (or_empty (rj_followUpDate data))
      in if usn = [] \<or> diagnosis = []
         then (Json_error 400 ''USN and diagnosis are required'', s)
         else if \<not> patient_exists usn s
         then (Json_error 404 ''Patient not found'', s)
         else (Json_message 201 ''Prescription created successfully'',
               insert_prescription usn
                 (prescription_notes diagnosis meds notes follow_up_date) now s))"

record prescription_item_form =
  if_prescription_id :: "string option"
  if_med_name :: "string option"
  if_dose :: "string option"
  if_route :: "string option"
  if_frequency :: "string option"
  if_duration_days :: "string option"
  if_instructions :: "string option"

definition upsert_medication :: "string \<Rightarrow> db \<Rightarrow> int \<times> db" where
  \<comment> \<open>\<open>SELECT id FROM medications WHERE name=?\<close>, then \<open>INSERT INTO medications(name)\<close>
      when no row came back; the result is \<open>med_id\<close>\<close>
  "upsert_medication med_name s =
     (case find (\<lambda>m. m_name m = med_name) (medications s) of
        Some med \<Rightarrow> (m_id med, s)
      | None \<Rightarrow>
          let new_id = next_rowid (map m_id (medications s)) (medications_seq s)
          in (new_id,
              s\<lparr> medications := medications s @
                    [\<lparr> m_id = new_id, m_name = med_name, m_generic_name = None,
                       m_form = None, m_strength = None, m_is_active = 1 \<rparr>],
                  medications_seq := new_id \<rparr>))"

definition prescription_item_create :: "prescription_item_form \<Rightarrow> db \<Rightarrow> response \<times> db" where
  \<comment> \<open>\<open>int(prescription_id)\<close> is evaluated outside the \<open>try\<close>, the \<open>INSERT\<close> binds
      that integer and \<open>dur_i\<close>, and the store refuses an item whose prescription does not
      exist (foreign key): all three raise after the medication was inserted and before
      the commit. \<open>med_id\<close> comes from the store\<close>
  "prescription_item_create form s =
     (let prescription_id = strip (or_empty (if_prescription_id form));
          med_name = strip (or_empty (if_med_name form));
          dose = strip (or_empty (if_dose form));
          route = strip (or_empty (if_route form));
          frequency = strip (or_empty (if_frequency form));
          duration_days = strip (or_empty (if_duration_days form));
          instructions = strip (or_empty (if_instructions form))
      in if \<not> (prescription_id \<noteq> [] \<and> med_name \<noteq> [])
         then (Redirect_err ''Prescription and medication required'', s)
         else
           (case upsert_medication med_name s of (med_id, s1) \<Rightarrow>
              let dur_i = (if duration_days \<noteq> [] then py_int duration_days else None)
              in (case py_int prescription_id of
                    None \<Rightarrow> (Uncaught ValueError, s)
                  | Some rx \<Rightarrow>
                      if \<not> (sqlite_int rx \<and> sqlite_int_opt dur_i)
                      then (Uncaught OverflowError, s)
                      else if \<not> (\<exists>r \<in> set (prescriptions s1). rx_id r = rx)
                      then (Uncaught IntegrityError, s)
                      else
                        let new_id = next_rowid (map pi_id (prescription_items s1))
                                       (prescription_items_seq s1)
                        in (Redirect_msg ''Medication added to prescription'',
                            s1\<lparr> prescription_items := prescription_items s1 @
                                   [\<lparr> pi_id = new_id, pi_prescription_id = rx,
                                      pi_medication_id = med_id, pi_dose = Some dose,
                                      pi_route = Some route, pi_frequency = Some frequency,
                                      pi_duration_days = dur_i,
                                      pi_instructions = or_none instructions \<rparr>],
                                 prescription_items_seq := new_id \<rparr>))))"

subsection \<open>Appointments\<close>

record appointment_json =
  aj_usn :: "string option"
  aj_starts_at :: "string option"
  aj_ends_at :: "string option"
  aj_status :: "string option"
  aj_title :: "string option"
  aj_clinician :: "string option"
  aj_notes :: "string option"

definition api_appointments_create ::
  "appointment_json \<Rightarrow> db \<Rightarrow> response \<times> db" where
  \<comment> \<open>the handler does not read the \<open>status\<close> key\<close>
  "api_appointments_create data s =
     (let usn = strip (or_empty (aj_usn data));
          starts_at = strip (or_empty (aj_starts_at data));
          ends_at = strip (or_empty (aj_ends_at data));
          title = or_none (strip (or_empty (aj_title data)));
          clinician = or_none (strip (or_empty (aj_clinician data)));
          notes = or_none (strip (or_empty (aj_notes data)))
      in if \<not> (usn \<noteq> [] \<and> starts_at \<noteq> [] \<and> ends_at \<noteq> [])
         then (Json_error 400 ''usn, starts_at, ends_at required'', s)
         else if \<not> patient_exists usn s
         then (Json_error 404 ''Patient not found'', s)
         else
           let appt_id = next_rowid (map ap_id (appointments s)) (appointments_seq s)
           in (Json_id 201 appt_id,
               s\<lparr> appointments := appointments s @
                     [\<lparr> ap_id = appt_id, ap_usn = usn, ap_starts_at = starts_at,
                        ap_ends_at = ends_at, ap_status = ''Scheduled'', ap_title = title,
                        ap_clinician = clinician, ap_notes = notes \<rparr>],
                   appointments_seq := appt_id \<rparr>))"

definition coalesce :: "'a option \<Rightarrow> 'a \<Rightarrow> 'a" where
  "coalesce x old = (case x of None \<Rightarrow> old | Some v \<Rightarrow> v)"

definition coalesce_null :: "'a option \<Rightarrow> 'a option \<Rightarrow> 'a option" where
  \<comment> \<open>\<open>COALESCE\<close> on a nullable column\<close>
  "coalesce_null x old = (case x of None \<Rightarrow> old | Some v \<Rightarrow> Some v)"

definition api_appointments_update ::
  "int \<Rightarrow> appointment_json \<Rightarrow> db \<Rightarrow> response \<times> db" where
  "api_appointments_update aid data s =
     (let status = or_none (strip (or_empty (aj_status data)));
          title = or_none (strip (or_empty (aj_title data)));
          clinician = or_none (strip (or_empty (aj_clinician data)));
          notes = or_none (strip (or_empty (aj_notes data)));
          starts_at = or_none (strip (or_empty (aj_starts_at data)));
          ends_at = or_none (strip (or_empty (aj_ends_at data)))
      in if \<not> sqlite_int aid
         then (Uncaught OverflowError, s)
         else
         (Json_ok,
          s\<lparr> appointments :=
                map (\<lambda>a. if ap_id a = aid
                          then a\<lparr> ap_status := coalesce status (ap_status a),
                                  ap_title := coalesce_null title (ap_title a),
                                  ap_clinician := coalesce_null clinician (ap_clinician a),
                                  ap_notes := coalesce_null notes (ap_notes a),
                                  ap_starts_at := coalesce starts_at (ap_starts_at a),
                                  ap_ends_at := coalesce ends_at (ap_ends_at a) \<rparr>
                          else a) (appointments s) \<rparr>))"

definition api_appointments_delete :: "int \<Rightarrow> db \<Rightarrow> response \<times> db" where
  "api_appointments_delete aid s =
     (if \<not> sqlite_int aid then (Uncaught OverflowError, s)
      else (Json_ok, s\<lparr> appointments := filter (\<lambda>a. ap_id a \<noteq> aid) (appointments s) \<rparr>))"

subsection \<open>Store initialisation\<close>

text \<open>
  The seed list of \<open>init_db\<close> is a list of tuples whose last two entries are either a
  string literal or the name \<open>NULL\<close>. The module binds its imports, \<open>APP_DIR\<close>,
  \<open>DB_PATH\<close>, \<open>app\<close> and its functions; \<open>NULL\<close> is none of them and no Python
  builtin, so loading it raises \<open>NameError\<close>. Python evaluates the list before it calls
  \<open>executemany\<close>.
\<close>

datatype py_atom = Str string | Name string

definition eval_atom :: "py_atom \<Rightarrow> exn + string option" where
  "eval_atom a =
     (case a of Str t \<Rightarrow> Inr (Some t)
      | Name n \<Rightarrow> if n = ''None'' then Inr None else Inl (NameError n))"

definition seed_source :: "(string \<times> string \<times> string \<times> py_atom \<times> py_atom) list" where
  "seed_source =
     [(''CBC'', ''Complete Blood Count'', ''Blood'', Name ''NULL'', Name ''NULL''),
      (''GLU'', ''Blood Glucose (Fasting)'', ''Blood'', Str ''mg/dL'', Str ''70-100''),
      (''LFT'', ''Liver Function Test'', ''Blood'', Name ''NULL'', Name ''NULL'')]"

fun eval_seed ::
  "(string \<times> string \<times> string \<times> py_atom \<times> py_atom) list
     \<Rightarrow> exn + (string \<times> string \<times> string \<times> string option \<times> string option) list" where
  "eval_seed [] = Inr []"
| "eval_seed ((code, name, specimen, unit, ref_range) # rest) =
     (case eval_atom unit of Inl e \<Rightarrow> Inl e
      | Inr u \<Rightarrow>
          (case eval_atom ref_range of Inl e \<Rightarrow> Inl e
           | Inr r \<Rightarrow>
               (case eval_seed rest of Inl e \<Rightarrow> Inl e
                | Inr rows \<Rightarrow> Inr ((code, name, specimen, u, r) # rows))))"

fun insert_lab_tests ::
  "(string \<times> string \<times> string \<times> string option \<times> string option) list \<Rightarrow> db \<Rightarrow> db" where
  \<comment> \<open>\<open>executemany("INSERT INTO lab_tests(code, name, specimen, unit, ref_range) ...")\<close>\<close>
  "insert_lab_tests [] s = s"
| "insert_lab_tests ((code, name, specimen, unit, ref_range) # rest) s =
     (let new_id = next_rowid (map lt_id (lab_tests s)) (lab_tests_seq s)
      in insert_lab_tests rest
           (s\<lparr> lab_tests := lab_tests s @
                  [\<lparr> lt_id = new_id, lt_code = code, lt_name = name,
                     lt_specimen = Some specimen, lt_unit = unit, lt_ref_range = ref_range,
                     lt_is_active = 1 \<rparr>],
                lab_tests_seq := new_id \<rparr>))"

definition init_db :: "db option \<Rightarrow> exn option \<times> db" where
  \<comment> \<open>the argument is \<open>None\<close> for a database file without tables; \<open>executescript\<close>
      commits the \<open>CREATE TABLE IF NOT EXISTS\<close> statements before the seeding starts. The
      first component is the exception the call raises, if any.\<close>
  "init_db store =
     (let s = (case store of None \<Rightarrow> empty_db | Some s0 \<Rightarrow> s0)
      in if length (lab_tests s) = 0
         then (case eval_seed seed_source of
                 Inl e \<Rightarrow> (Some e, s)
               | Inr rows \<Rightarrow> (None, insert_lab_tests rows s))
         else (None, s))"

definition ensure_db :: "db option \<Rightarrow> exn option \<times> db" where
  \<comment> \<open>both branches of the \<open>before_request\<close> hook call \<open>init_db\<close>\<close>
  "ensure_db store = init_db store"

subsection \<open>Reports\<close>

definition latest_recorded_at :: "vitals_row list \<Rightarrow> string \<Rightarrow> string option" where
  \<comment> \<open>\<open>SELECT usn, MAX(recorded_at) AS latest FROM vitals GROUP BY usn\<close>, at one \<open>usn\<close>\<close>
  "latest_recorded_at vs u =
     (case map v_recorded_at (filter (\<lambda>v. v_usn v = u) vs) of
        [] \<Rightarrow> None
      | t # ts \<Rightarrow> Some (fold max ts t))"

definition latest_vitals_rows :: "vitals_row list \<Rightarrow> vitals_row list" where
  \<comment> \<open>the join \<open>m.usn = v.usn AND m.latest = v.recorded_at\<close>\<close>
  "latest_vitals_rows vs =
     filter (\<lambda>v. latest_recorded_at vs (v_usn v) = Some (v_recorded_at v)) vs"

definition vitals_map :: "db \<Rightarrow> (string \<rightharpoonup> vitals_row)" where
  \<comment> \<open>\<open>for v in ...: vitals_map[v["usn"]] = v\<close>\<close>
  "vitals_map s = fold (\<lambda>v m. m(v_usn v \<mapsto> v)) (latest_vitals_rows (vitals s)) Map.empty"

datatype cell = CNone | CInt int | CReal real | CText string

definition vitals_row_items :: "vitals_row \<Rightarrow> (string \<times> cell) list" where
  \<comment> \<open>the keys and values of an \<open>sqlite3.Row\<close> of the \<open>vitals\<close> table\<close>
  "vitals_row_items v =
     [(''id'', CInt (v_id v)), (''usn'', CText (v_usn v)),
      (''weight'', CReal (v_weight v)), (''height'', CReal (v_height v)),
      (''bmi'', case v_bmi v of None \<Rightarrow> CNone | Some b \<Rightarrow> CReal b),
      (''blood_pressure_systolic'', CInt (v_blood_pressure_systolic v)),
      (''blood_pressure_diastolic'', CInt (v_blood_pressure_diastolic v)),
      (''heart_rate'', CInt (v_heart_rate v)),
      (''temperature'', CReal (v_temperature v)),
      (''respiratory_rate'', case v_respiratory_rate v of None \<Rightarrow> CNone | Some n \<Rightarrow> CInt n),
      (''oxygen_saturation'', case v_oxygen_saturation v of None \<Rightarrow> CNone | Some n \<Rightarrow> CInt n),
      (''notes'', case v_notes v of None \<Rightarrow> CNone | Some t \<Rightarrow> CText t),
      (''recorded_at'', CText (v_recorded_at v)),
      (''recorded_by'', CText (v_recorded_by v))]"

definition row_item :: "(string \<times> cell) list \<Rightarrow> string \<Rightarrow> exn + cell" where
  \<comment> \<open>\<open>row[key]\<close>: \<open>IndexError\<close> for a key that is no column\<close>
  "row_item items key = (case map_of items key of None \<Rightarrow> Inl IndexError | Some c \<Rightarrow> Inr c)"

definition show_int :: "int \<Rightarrow> string" where
  "show_int i = (if i < 0 then CHR ''-'' # show_nat (nat (- i)) else show_nat (nat i))"

definition py_str :: "(real \<Rightarrow> string) \<Rightarrow> cell \<Rightarrow> string" where
  \<comment> \<open>\<open>str(x)\<close>; the first argument is \<open>str\<close> on floats, which belongs to the runtime\<close>
  "py_str str_real c =
     (case c of CNone \<Rightarrow> ''None'' | CInt n \<Rightarrow> show_int n | CReal r \<Rightarrow> str_real r
      | CText t \<Rightarrow> t)"

definition vitals_cells :: "(real \<Rightarrow> string) \<Rightarrow> vitals_row option \<Rightarrow> exn + cell list" where
  \<comment> \<open>the six vitals entries of an export row, evaluated left to right\<close>
  "vitals_cells str_real v =
     (case v of
        None \<Rightarrow> Inr [CText [], CText [], CText [], CText [], CText [], CText []]
      | Some row \<Rightarrow>
          (case row_item (vitals_row_items row) ''blood_pressure'' of Inl e \<Rightarrow> Inl e
           | Inr bp \<Rightarrow>
          (case row_item (vitals_row_items row) ''pulse'' of Inl e \<Rightarrow> Inl e
           | Inr pulse \<Rightarrow>
          (case row_item (vitals_row_items row) ''temperature'' of Inl e \<Rightarrow> Inl e
           | Inr temp \<Rightarrow>
          (case row_item (vitals_row_items row) ''weight'' of Inl e \<Rightarrow> Inl e
           | Inr weight \<Rightarrow>
          (case row_item (vitals_row_items row) ''height'' of Inl e \<Rightarrow> Inl e
           | Inr height \<Rightarrow>
          (case row_item (vitals_row_items row) ''recorded_at'' of Inl e \<Rightarrow> Inl e
           | Inr recorded_at \<Rightarrow>
               Inr [bp, CText (py_str str_real pulse), CText (py_str str_real temp),
                    CText (py_str str_real weight), CText (py_str str_real height),
                    recorded_at])))))))"

definition patient_cells :: "patient \<Rightarrow> cell list" where
  "patient_cells p =
     [CText (p_usn p), CText (p_full_name p), CText (show_int (p_age p)),
      CText (p_gender p), CText (p_contact p), CText (p_address p)]"

fun export_related ::
  "(real \<Rightarrow> string) \<Rightarrow> patient \<Rightarrow> vitals_row option \<Rightarrow> prescription list
     \<Rightarrow> exn + cell list list" where
  \<comment> \<open>\<open>for r in related: rows.append([...])\<close>\<close>
  "export_related str_real p v [] = Inr []"
| "export_related str_real p v (r # rs) =
     (case vitals_cells str_real v of Inl e \<Rightarrow> Inl e
      | Inr vc \<Rightarrow>
          (case export_related str_real p v rs of Inl e \<Rightarrow> Inl e
           | Inr rows \<Rightarrow>
               Inr ((patient_cells p @ vc
                     @ [CText (map (\<lambda>c. if c = CHR 0x0A then CHR '' '' else c) (rx_notes r)),
                        CText (rx_prescribed_at r)]) # rows)))"

definition export_patient ::
  "(real \<Rightarrow> string) \<Rightarrow> db \<Rightarrow> patient \<Rightarrow> exn + cell list list" where
  \<comment> \<open>the body of \<open>for p in patients\<close>\<close>
  "export_patient str_real s p =
     (let v = vitals_map s (p_usn p);
          related = filter (\<lambda>r. rx_usn r = p_usn p) (prescriptions s)
      in if related = []
         then (case vitals_cells str_real v of Inl e \<Rightarrow> Inl e
               | Inr vc \<Rightarrow> Inr [patient_cells p @ vc @ [CText [], CText []]])
         else export_related str_real p v related)"

fun export_rows :: "(real \<Rightarrow> string) \<Rightarrow> db \<Rightarrow> patient list \<Rightarrow> exn + cell list list" where
  "export_rows str_real s [] = Inr []"
| "export_rows str_real s (p # ps) =
     (case export_patient str_real s p of Inl e \<Rightarrow> Inl e
      | Inr rows \<Rightarrow>
          (case export_rows str_real s ps of Inl e \<Rightarrow> Inl e
           | Inr later \<Rightarrow> Inr (rows @ later)))"

definition export_csv :: "(real \<Rightarrow> string) \<Rightarrow> db \<Rightarrow> exn + cell list list" where
  \<comment> \<open>the rows handed to \<open>csv.writer\<close> after the header, or the exception raised\<close>
  "export_csv str_real s = export_rows str_real s (patients s)"

record complete_row =
  cr_patient :: patient
  cr_latest_weight :: "real option"
  cr_latest_height :: "real option"
  cr_latest_bmi :: "real option"
  cr_latest_bp :: "string option"
  cr_latest_hr :: "int option"
  cr_latest_temp :: "real option"
  cr_total_vitals :: nat
  cr_total_prescriptions :: nat

definition latest_vitals_id :: "vitals_row list \<Rightarrow> string \<Rightarrow> int option" where
  \<comment> \<open>\<open>SELECT id FROM vitals WHERE usn = ? ORDER BY recorded_at DESC LIMIT 1\<close>; among
      rows with the same timestamp SQL leaves the choice open, the model takes the first\<close>
  "latest_vitals_id vs u =
     (case latest_recorded_at vs u of
        None \<Rightarrow> None
      | Some t \<Rightarrow> map_option v_id (find (\<lambda>v. v_usn v = u \<and> v_recorded_at v = t) vs))"

definition complete_rows_of :: "db \<Rightarrow> patient \<Rightarrow> complete_row list" where
  \<comment> \<open>the rows of \<open>patients p LEFT JOIN vitals v ON ...\<close> for one patient\<close>
  "complete_rows_of s p =
     (let total_v = length (filter (\<lambda>v. v_usn v = p_usn p) (vitals s));
          total_rx = length (filter (\<lambda>r. rx_usn r = p_usn p) (prescriptions s));
          joined = filter (\<lambda>v. v_usn v = p_usn p
                               \<and> Some (v_id v) = latest_vitals_id (vitals s) (p_usn p))
                     (vitals s)
      in if joined = []
         then [\<lparr> cr_patient = p, cr_latest_weight = None, cr_latest_height = None,
                  cr_latest_bmi = None, cr_latest_bp = None, cr_latest_hr = None,
                  cr_latest_temp = None, cr_total_vitals = total_v,
                  cr_total_prescriptions = total_rx \<rparr>]
         else map (\<lambda>v. \<lparr> cr_patient = p, cr_latest_weight = Some (v_weight v),
                          cr_latest_height = Some (v_height v), cr_latest_bmi = v_bmi v,
                          cr_latest_bp = Some (show_int (v_blood_pressure_systolic v) @ ''/''
                                               @ show_int (v_blood_pressure_diastolic v)),
                          cr_latest_hr = Some (v_heart_rate v),
                          cr_latest_temp = Some (v_temperature v),
                          cr_total_vitals = total_v,
                          cr_total_prescriptions = total_rx \<rparr>) joined)"

definition api_export_complete :: "db \<Rightarrow> complete_row list" where
  \<comment> \<open>\<open>patients_data\<close>, in the order of \<open>ORDER BY p.full_name\<close>\<close>
  "api_export_complete s = concat (map (complete_rows_of s) (sort_key p_full_name (patients s)))"

subsection \<open>Requests\<close>

datatype request =
    PatientCreate patient_form
  | PatientUpdate patient_form
  | PatientDelete string
  | VitalsCreate vitals_form
  | ApiPatientsPost patient_json
  | ApiVitalsPost vitals_json
  | ApiPrescriptionsPost prescription_json
  | VitalsCreateLegacy legacy_vitals_form
  | PrescriptionCreate prescription_form
  | PrescriptionItemCreate prescription_item_form
  | ApiAppointmentsCreate appointment_json
  | ApiAppointmentsUpdate int appointment_json
  | ApiAppointmentsDelete int
  | ApiCreateLabOrder lab_order_json
  | ApiSetLabResult int lab_result_body

fun handle ::
  "runtime \<Rightarrow> string \<Rightarrow> request \<Rightarrow> db \<Rightarrow> response \<times> db" where
  \<comment> \<open>every route of the application that writes to the store\<close>
  "handle rt now (PatientCreate form) s = patient_create form s"
| "handle rt now (PatientUpdate form) s = patient_update form s"
| "handle rt now (PatientDelete usn) s = patient_delete usn s"
| "handle rt now (VitalsCreate form) s = vitals_create rt form now s"
| "handle rt now (ApiPatientsPost data) s = api_patients_post data s"
| "handle rt now (ApiVitalsPost data) s = api_vitals_post rt data now s"
| "handle rt now (ApiPrescriptionsPost data) s = api_prescriptions_post data now s"
| "handle rt now (VitalsCreateLegacy form) s = vitals_create_legacy rt form s"
| "handle rt now (PrescriptionCreate form) s = prescription_create form now s"
| "handle rt now (PrescriptionItemCreate form) s = prescription_item_create form s"
| "handle rt now (ApiAppointmentsCreate data) s = api_appointments_create data s"
| "handle rt now (ApiAppointmentsUpdate aid data) s = api_appointments_update aid data s"
| "handle rt now (ApiAppointmentsDelete aid) s = api_appointments_delete aid s"
| "handle rt now (ApiCreateLabOrder data) s = api_create_lab_order data now s"
| "handle rt now (ApiSetLabResult item_id body) s =
     api_set_lab_result_request item_id body now s"

definition serve ::
  "runtime \<Rightarrow> string \<Rightarrow> request \<Rightarrow> db \<Rightarrow> response \<times> db" where
  \<comment> \<open>a request as Flask runs it: the \<open>before_request\<close> hook, then the route\<close>
  "serve rt now req s =
     (case ensure_db (Some s) of
        (Some e, s') \<Rightarrow> (Uncaught e, s')
      | (None, s') \<Rightarrow> handle rt now req s')"

subsection \<open>Constraints of the schema\<close>

definition pk_ok :: "db \<Rightarrow> bool" where
  \<comment> \<open>the \<open>PRIMARY KEY\<close> of every table\<close>
  "pk_ok s \<longleftrightarrow>
     distinct (map p_usn (patients s)) \<and> distinct (map v_id (vitals s))
     \<and> distinct (map rx_id (prescriptions s)) \<and> distinct (map en_id (encounters s))
     \<and> distinct (map pb_id (problems s)) \<and> distinct (map al_id (allergies s))
     \<and> distinct (map m_id (medications s)) \<and> distinct (map pi_id (prescription_items s))
     \<and> distinct (map lt_id (lab_tests s)) \<and> distinct (map lo_id (lab_orders s))
     \<and> distinct (map loi_id (lab_order_items s)) \<and> distinct (map ap_id (appointments s))"

definition fk_ok :: "db \<Rightarrow> bool" where
  \<comment> \<open>the \<open>FOREIGN KEY\<close> clauses, which SQLite enforces under
      \<open>PRAGMA foreign_keys = ON\<close>\<close>
  "fk_ok s \<longleftrightarrow>
     (\<forall>v \<in> set (vitals s). patient_exists (v_usn v) s)
     \<and> (\<forall>r \<in> set (prescriptions s). patient_exists (rx_usn r) s)
     \<and> (\<forall>e \<in> set (encounters s). patient_exists (en_usn e) s)
     \<and> (\<forall>b \<in> set (problems s). patient_exists (pb_usn b) s)
     \<and> (\<forall>a \<in> set (allergies s). patient_exists (al_usn a) s)
     \<and> (\<forall>ord \<in> set (lab_orders s). patient_exists (lo_usn ord) s)
     \<and> (\<forall>a \<in> set (appointments s). patient_exists (ap_usn a) s)
     \<and> (\<forall>i \<in> set (prescription_items s).
           pi_prescription_id i \<in> set (map rx_id (prescriptions s))
           \<and> pi_medication_id i \<in> set (map m_id (medications s)))
     \<and> (\<forall>i \<in> set (lab_order_items s).
           loi_lab_order_id i \<in> set (map lo_id (lab_orders s))
           \<and> loi_lab_test_id i \<in> set (map lt_id (lab_tests s)))
     \<and> (\<forall>ord \<in> set (lab_orders s). \<forall>e. lo_encounter_id ord = Some e
           \<longrightarrow> e \<in> set (map en_id (encounters s)))"

definition references_patient :: "string \<Rightarrow> db \<Rightarrow> bool" where
  \<comment> \<open>some row of a table with a \<open>usn\<close> foreign key refers to the patient\<close>
  "references_patient u s \<longleftrightarrow>
     u \<in> set (map v_usn (vitals s)) \<or> u \<in> set (map rx_usn (prescriptions s))
     \<or> u \<in> set (map en_usn (encounters s)) \<or> u \<in> set (map pb_usn (problems s))
     \<or> u \<in> set (map al_usn (allergies s)) \<or> u \<in> set (map lo_usn (lab_orders s))
     \<or> u \<in> set (map ap_usn (appointments s))"


subsection \<open>Example stores\<close>

definition ex_patient :: patient where
  "ex_patient = \<lparr> p_usn = ''P1'', p_full_name = ''Asha Rao'', p_age = 34, p_gender = ''F'',
     p_contact = ''555-0101'', p_address = ''12 Lake Road'' \<rparr>"

definition ex_patient2 :: patient where
  "ex_patient2 = \<lparr> p_usn = ''P2'', p_full_name = ''Ben Ito'', p_age = 61, p_gender = ''M'',
     p_contact = ''555-0102'', p_address = ''4 Mill Lane'' \<rparr>"

definition ex_test :: lab_test where
  "ex_test = \<lparr> lt_id = 1, lt_code = ''CBC'', lt_name = ''Complete Blood Count'',
     lt_specimen = Some ''Blood'', lt_unit = None, lt_ref_range = None, lt_is_active = 1 \<rparr>"

definition ex_order :: lab_order where
  "ex_order = \<lparr> lo_id = 1, lo_usn = ''P1'', lo_encounter_id = None,
     lo_ordered_at = ''2024-03-01T09:00:00'', lo_status = ''Ordered'', lo_notes = None \<rparr>"

definition ex_item :: "int \<Rightarrow> lab_order_item" where
  "ex_item n = \<lparr> loi_id = n, loi_lab_order_id = 1, loi_lab_test_id = 1,
     loi_status = ''Ordered'', loi_result_value = None, loi_result_notes = None,
     loi_result_at = None \<rparr>"

definition ex_vitals :: "int \<Rightarrow> string \<Rightarrow> string \<Rightarrow> vitals_row" where
  "ex_vitals n u t = \<lparr> v_id = n, v_usn = u, v_weight = 49, v_height = 175,
     v_bmi = Some 16, v_blood_pressure_systolic = 120,
     v_blood_pressure_diastolic = 80, v_heart_rate = 72, v_temperature = 37,
     v_respiratory_rate = None, v_oxygen_saturation = None, v_notes = Some [],
     v_recorded_at = t, v_recorded_by = ''System User'' \<rparr>"

definition ex_prescription :: prescription where
  "ex_prescription = \<lparr> rx_id = 1, rx_usn = ''P1'', rx_notes = ''Rest and fluids'',
     rx_prescribed_at = ''2024-03-01T09:30:00'' \<rparr>"

definition ex_appointment :: appointment where
  "ex_appointment = \<lparr> ap_id = 1, ap_usn = ''P1'', ap_starts_at = ''2024-04-01T10:00'',
     ap_ends_at = ''2024-04-01T10:30'', ap_status = ''Scheduled'', ap_title = None,
     ap_clinician = None, ap_notes = None \<rparr>"

definition db_seeded :: db where
  \<comment> \<open>a store with one catalog entry and one patient\<close>
  "db_seeded = empty_db \<lparr> patients := [ex_patient], lab_tests := [ex_test],
     lab_tests_seq := 1 \<rparr>"

definition db_order :: db where
  \<comment> \<open>one patient with one lab order of two items, nothing completed yet\<close>
  "db_order = db_seeded \<lparr> lab_orders := [ex_order], lab_orders_seq := 1,
     lab_order_items := [ex_item 1, ex_item 2], lab_order_items_seq := 2 \<rparr>"



definition db_clinic :: db where
  \<comment> \<open>patient \<open>P1\<close> with three vitals records, a prescription, an appointment and a lab
      order; patient \<open>P2\<close> with nothing\<close>
  "db_clinic = db_order \<lparr> patients := [ex_patient, ex_patient2],
     vitals := [ex_vitals 1 ''P1'' ''2024-03-01T09:00:00'',
                ex_vitals 2 ''P1'' ''2024-03-03T09:00:00'',
                ex_vitals 3 ''P1'' ''2024-03-02T09:00:00''],
     vitals_seq := 3, prescriptions := [ex_prescription], prescriptions_seq := 1,
     appointments := [ex_appointment], appointments_seq := 1 \<rparr>"


section \<open>Verified properties\<close>


subsection \<open>Fresh keys\<close>

lemma fold_max_start: "(a::int) \<le> fold max xs a"
  by (induction xs arbitrary: a) (auto intro: order_trans [OF max.cobounded2])

lemma fold_max_mem: "x \<in> set xs \<Longrightarrow> (x::int) \<le> fold max xs a"
proof (induction xs arbitrary: a)
  case Nil
  then show ?case by simp
next
  case (Cons y ys)
  show ?case
  proof (cases "x = y")
    case True
    have "y \<le> max y a" by simp
    also have "\<dots> \<le> fold max ys (max y a)" by (rule fold_max_start)
    finally show ?thesis using True by simp
  next
    case False
    with Cons show ?thesis by simp
  qed
qed

lemma next_rowid_fresh: "next_rowid ids sq \<notin> set ids"
proof
  assume "next_rowid ids sq \<in> set ids"
  then have "next_rowid ids sq \<le> fold max ids (max sq 0)" by (rule fold_max_mem)
  then show False by (simp add: next_rowid_def)
qed

subsection \<open>Handlers and the lab orders\<close>

lemma lab_orders_patient_create [simp]: "lab_orders (snd (patient_create form s)) = lab_orders s"
  by (simp add: patient_create_def Let_def split: option.splits)

lemma lab_orders_patient_update [simp]: "lab_orders (snd (patient_update form s)) = lab_orders s"
  by (simp add: patient_update_def Let_def split: option.splits)

lemma lab_orders_api_patients_post [simp]:
  "lab_orders (snd (api_patients_post data s)) = lab_orders s"
  by (simp add: api_patients_post_def Let_def split: option.splits)

lemma lab_orders_insert_vitals [simp]:
  "lab_orders (insert_vitals rt u w h a b c d e f n t s) = lab_orders s"
  by (simp add: insert_vitals_def Let_def)

lemma lab_orders_vitals_create [simp]:
  "lab_orders (snd (vitals_create rt form now s)) = lab_orders s"
  by (simp add: vitals_create_def Let_def split: option.splits)

lemma lab_orders_invalid_numeric [simp]: "lab_orders (snd (invalid_numeric e s)) = lab_orders s"
  by (simp add: invalid_numeric_def)

lemma lab_orders_api_vitals_post [simp]:
  "lab_orders (snd (api_vitals_post rt data now s)) = lab_orders s"
  by (simp add: api_vitals_post_def Let_def split: option.splits sum.splits)

lemma lab_orders_vitals_create_legacy [simp]:
  "lab_orders (snd (vitals_create_legacy rt form s)) = lab_orders s"
  by (simp add: vitals_create_legacy_def Let_def split: option.splits)

lemma lab_orders_insert_prescription [simp]:
  "lab_orders (insert_prescription u n t s) = lab_orders s"
  by (simp add: insert_prescription_def Let_def)

lemma lab_orders_prescription_create [simp]:
  "lab_orders (snd (prescription_create form now s)) = lab_orders s"
  by (simp add: prescription_create_def Let_def)

lemma lab_orders_api_prescriptions_post [simp]:
  "lab_orders (snd (api_prescriptions_post data now s)) = lab_orders s"
  by (simp add: api_prescriptions_post_def Let_def)

lemma lab_orders_prescription_item_create [simp]:
  "lab_orders (snd (prescription_item_create form s)) = lab_orders s"
  by (simp add: prescription_item_create_def upsert_medication_def Let_def
      split: option.splits prod.splits)

lemma lab_orders_appointments [simp]:
  "lab_orders (snd (api_appointments_create data s)) = lab_orders s"
  "lab_orders (snd (api_appointments_update aid data s)) = lab_orders s"
  "lab_orders (snd (api_appointments_delete aid s)) = lab_orders s"
  by (simp_all add: api_appointments_create_def api_appointments_update_def
      api_appointments_delete_def Let_def)












lemma lab_orders_init_db [simp]: "lab_orders (snd (init_db (Some s))) = lab_orders s"
  by (simp add: init_db_def seed_source_def eval_atom_def)



subsection \<open>Lab results for an unknown item\<close>




subsection \<open>Lab results and the status of the order\<close>



subsection \<open>Deleting a patient\<close>

lemma clear_encounter_fields [simp]:
  "lo_usn (clear_encounter gone ord) = lo_usn ord"
  "lo_id (clear_encounter gone ord) = lo_id ord"
  "lo_status (clear_encounter gone ord) = lo_status ord"
  by (simp_all add: clear_encounter_def split: option.splits)

lemma cascade_delete_absent: "\<not> patient_exists u s \<Longrightarrow> cascade_delete u s = s"
  by (simp add: cascade_delete_def)

lemma cascade_delete_no_patient: "\<not> patient_exists u (cascade_delete u s)"
  by (auto simp add: cascade_delete_def patient_exists_def Let_def)

lemma cascade_delete_no_refs:
  assumes "patient_exists u s"
  shows "\<not> references_patient u (cascade_delete u s)"
  using assms by (auto simp add: cascade_delete_def references_patient_def Let_def)

lemma fk_ok_no_refs:
  assumes "fk_ok s" "\<not> patient_exists u s"
  shows "\<not> references_patient u s"
  using assms by (auto simp add: fk_ok_def references_patient_def)

lemma patient_exists_cascade:
  "patient_exists w (cascade_delete u s) \<longleftrightarrow> patient_exists w s \<and> w \<noteq> u"
  by (auto simp add: cascade_delete_def patient_exists_def Let_def)


lemma cascade_delete_tables:
  assumes "patient_exists u s"
  shows "patients (cascade_delete u s) = filter (\<lambda>p. p_usn p \<noteq> u) (patients s)"
    and "vitals (cascade_delete u s) = filter (\<lambda>v. v_usn v \<noteq> u) (vitals s)"
    and "prescriptions (cascade_delete u s) = filter (\<lambda>r. rx_usn r \<noteq> u) (prescriptions s)"
    and "prescription_items (cascade_delete u s) =
           filter (\<lambda>i. pi_prescription_id i
                     \<notin> set (map rx_id (filter (\<lambda>r. rx_usn r = u) (prescriptions s))))
             (prescription_items s)"
    and "encounters (cascade_delete u s) = filter (\<lambda>e. en_usn e \<noteq> u) (encounters s)"
    and "problems (cascade_delete u s) = filter (\<lambda>b. pb_usn b \<noteq> u) (problems s)"
    and "allergies (cascade_delete u s) = filter (\<lambda>a. al_usn a \<noteq> u) (allergies s)"
    and "lab_orders (cascade_delete u s) =
           map (clear_encounter (map en_id (filter (\<lambda>e. en_usn e = u) (encounters s))))
             (filter (\<lambda>ord. lo_usn ord \<noteq> u) (lab_orders s))"
    and "lab_order_items (cascade_delete u s) =
           filter (\<lambda>i. loi_lab_order_id i
                     \<notin> set (map lo_id (filter (\<lambda>ord. lo_usn ord = u) (lab_orders s))))
             (lab_order_items s)"
    and "appointments (cascade_delete u s) = filter (\<lambda>a. ap_usn a \<noteq> u) (appointments s)"
    and "medications (cascade_delete u s) = medications s"
    and "lab_tests (cascade_delete u s) = lab_tests s"
  using assms by (simp_all add: cascade_delete_def Let_def)

lemma clear_encounter_Some:
  "lo_encounter_id (clear_encounter gone ord) = Some e \<Longrightarrow>
     lo_encounter_id ord = Some e \<and> e \<notin> set gone"
  by (auto simp add: clear_encounter_def split: option.splits if_splits)

lemma fk_ok_cascade_delete:
  assumes fk: "fk_ok s"
  shows "fk_ok (cascade_delete u s)"
proof (cases "patient_exists u s")
  case False
  then show ?thesis using fk by (simp add: cascade_delete_absent)
next
  case True
  note tabs = cascade_delete_tables [OF True]
  have usn_refs:
    "(\<forall>v \<in> set (vitals (cascade_delete u s)). patient_exists (v_usn v) (cascade_delete u s))"
    "(\<forall>r \<in> set (prescriptions (cascade_delete u s)). patient_exists (rx_usn r) (cascade_delete u s))"
    "(\<forall>e \<in> set (encounters (cascade_delete u s)). patient_exists (en_usn e) (cascade_delete u s))"
    "(\<forall>b \<in> set (problems (cascade_delete u s)). patient_exists (pb_usn b) (cascade_delete u s))"
    "(\<forall>a \<in> set (allergies (cascade_delete u s)). patient_exists (al_usn a) (cascade_delete u s))"
    "(\<forall>ord \<in> set (lab_orders (cascade_delete u s)). patient_exists (lo_usn ord) (cascade_delete u s))"
    "(\<forall>a \<in> set (appointments (cascade_delete u s)). patient_exists (ap_usn a) (cascade_delete u s))"
    using fk by (auto simp add: tabs patient_exists_cascade fk_ok_def)
  have rx_items: "\<forall>i \<in> set (prescription_items (cascade_delete u s)).
           pi_prescription_id i \<in> set (map rx_id (prescriptions (cascade_delete u s)))
           \<and> pi_medication_id i \<in> set (map m_id (medications (cascade_delete u s)))"
  proof
    fix i assume i: "i \<in> set (prescription_items (cascade_delete u s))"
    then have i0: "i \<in> set (prescription_items s)"
      and keep: "\<forall>r \<in> set (prescriptions s). rx_usn r = u \<longrightarrow> rx_id r \<noteq> pi_prescription_id i"
      by (auto simp add: tabs image_iff)
    from fk i0 obtain r where r: "r \<in> set (prescriptions s)" "rx_id r = pi_prescription_id i"
      by (auto simp add: fk_ok_def)
    have "rx_usn r \<noteq> u" using keep r by auto
    then have "pi_prescription_id i \<in> set (map rx_id (prescriptions (cascade_delete u s)))"
      using r by (auto simp add: tabs intro!: image_eqI [of _ _ r])
    moreover have "pi_medication_id i \<in> set (map m_id (medications (cascade_delete u s)))"
      using fk i0 by (simp add: tabs fk_ok_def)
    ultimately show "pi_prescription_id i \<in> set (map rx_id (prescriptions (cascade_delete u s)))
           \<and> pi_medication_id i \<in> set (map m_id (medications (cascade_delete u s)))"
      by simp
  qed
  have lo_items: "\<forall>i \<in> set (lab_order_items (cascade_delete u s)).
           loi_lab_order_id i \<in> set (map lo_id (lab_orders (cascade_delete u s)))
           \<and> loi_lab_test_id i \<in> set (map lt_id (lab_tests (cascade_delete u s)))"
  proof
    fix i assume i: "i \<in> set (lab_order_items (cascade_delete u s))"
    then have i0: "i \<in> set (lab_order_items s)"
      and keep: "\<forall>x \<in> set (lab_orders s). lo_usn x = u \<longrightarrow> lo_id x \<noteq> loi_lab_order_id i"
      by (auto simp add: tabs image_iff)
    from fk i0 obtain ord where ord: "ord \<in> set (lab_orders s)" "lo_id ord = loi_lab_order_id i"
      by (auto simp add: fk_ok_def)
    have "lo_usn ord \<noteq> u" using keep ord by auto
    then have "loi_lab_order_id i \<in> set (map lo_id (lab_orders (cascade_delete u s)))"
      using ord by (auto simp add: tabs image_iff intro!: bexI [of _ ord])
    moreover have "loi_lab_test_id i \<in> set (map lt_id (lab_tests (cascade_delete u s)))"
      using fk i0 by (simp add: tabs fk_ok_def)
    ultimately show "loi_lab_order_id i \<in> set (map lo_id (lab_orders (cascade_delete u s)))
           \<and> loi_lab_test_id i \<in> set (map lt_id (lab_tests (cascade_delete u s)))"
      by simp
  qed
  have enc: "\<forall>ord \<in> set (lab_orders (cascade_delete u s)). \<forall>e. lo_encounter_id ord = Some e
           \<longrightarrow> e \<in> set (map en_id (encounters (cascade_delete u s)))"
  proof (intro ballI allI impI)
    fix ord e
    assume ord: "ord \<in> set (lab_orders (cascade_delete u s))" and e: "lo_encounter_id ord = Some e"
    from ord obtain ord0 where ord0: "ord0 \<in> set (lab_orders s)"
      "ord = clear_encounter (map en_id (filter (\<lambda>e. en_usn e = u) (encounters s))) ord0"
      by (auto simp add: tabs)
    from clear_encounter_Some [OF e [unfolded ord0(2)]]
    have e0: "lo_encounter_id ord0 = Some e"
      and keep: "\<forall>x \<in> set (encounters s). en_usn x = u \<longrightarrow> en_id x \<noteq> e"
      by (auto simp add: image_iff)
    from fk have "\<forall>x \<in> set (lab_orders s). \<forall>e. lo_encounter_id x = Some e
           \<longrightarrow> e \<in> set (map en_id (encounters s))"
      by (simp add: fk_ok_def)
    then have "e \<in> set (map en_id (encounters s))"
      using ord0(1) e0 by blast
    then obtain en where en: "en \<in> set (encounters s)" "en_id en = e"
      by auto
    have "en_usn en \<noteq> u" using keep en by auto
    then show "e \<in> set (map en_id (encounters (cascade_delete u s)))"
      using en by (auto simp add: tabs image_iff intro!: bexI [of _ en])
  qed
  show ?thesis
    unfolding fk_ok_def using usn_refs rx_items lo_items enc by blast
qed


text \<open>
  Claim C3. \<open>patient_delete\<close> always answers "Patient deleted". Afterwards the patient is
  gone and, in a store that satisfies its foreign keys, no row of \<open>vitals\<close>,
  \<open>prescriptions\<close>, \<open>encounters\<close>, \<open>problems\<close>, \<open>allergies\<close>, \<open>lab_orders\<close> or
  \<open>appointments\<close> refers to the identifier (and the foreign keys still hold); the items
  of the deleted prescriptions and lab orders are gone as well. Deleting an identifier that
  no patient has changes nothing, so a second deletion has no effect.
\<close>

theorem patient_delete_cascade:
  fixes u :: string and s :: db
  defines "s' \<equiv> snd (patient_delete u s)"
  shows "fst (patient_delete u s) = Redirect_msg ''Patient deleted''
    \<and> \<not> patient_exists u s'
    \<and> (fk_ok s \<longrightarrow> \<not> references_patient u s' \<and> fk_ok s')
    \<and> (patient_exists u s \<longrightarrow>
          \<not> references_patient u s'
          \<and> (\<forall>i \<in> set (prescription_items s'). \<forall>r \<in> set (prescriptions s).
                rx_usn r = u \<longrightarrow> pi_prescription_id i \<noteq> rx_id r)
          \<and> (\<forall>i \<in> set (lab_order_items s'). \<forall>x \<in> set (lab_orders s).
                lo_usn x = u \<longrightarrow> loi_lab_order_id i \<noteq> lo_id x))
    \<and> (\<not> patient_exists u s \<longrightarrow> s' = s)
    \<and> patient_delete u s' = (Redirect_msg ''Patient deleted'', s')"
proof -
  have s': "s' = cascade_delete u s" by (simp add: s'_def patient_delete_def)
  have gone: "\<not> patient_exists u s'" unfolding s' by (rule cascade_delete_no_patient)
  have fk: "\<not> references_patient u s' \<and> fk_ok s'" if "fk_ok s"
  proof (cases "patient_exists u s")
    case True
    then show ?thesis unfolding s'
      using cascade_delete_no_refs fk_ok_cascade_delete that by blast
  next
    case False
    then show ?thesis unfolding s'
      using fk_ok_no_refs that by (simp add: cascade_delete_absent)
  qed
  have items: "(\<forall>i \<in> set (prescription_items s'). \<forall>r \<in> set (prescriptions s).
                rx_usn r = u \<longrightarrow> pi_prescription_id i \<noteq> rx_id r)
          \<and> (\<forall>i \<in> set (lab_order_items s'). \<forall>x \<in> set (lab_orders s).
                lo_usn x = u \<longrightarrow> loi_lab_order_id i \<noteq> lo_id x)" if "patient_exists u s"
    unfolding s' by (auto simp add: cascade_delete_tables [OF that] image_iff)
  have again: "patient_delete u s' = (Redirect_msg ''Patient deleted'', s')"
    using gone by (simp add: patient_delete_def cascade_delete_absent)
  show ?thesis
    using gone fk items again cascade_delete_no_refs [of u s] cascade_delete_absent [of u s]
    by (simp add: s' patient_delete_def)
qed

theorem patient_delete_cascade_witness:
  "fk_ok db_clinic \<and> patient_exists ''P1'' db_clinic \<and> references_patient ''P1'' db_clinic
   \<and> \<not> references_patient ''P1'' (snd (patient_delete ''P1'' db_clinic))
   \<and> lab_order_items (snd (patient_delete ''P1'' db_clinic)) = []
   \<and> \<not> patient_exists ''P9'' db_clinic
   \<and> snd (patient_delete ''P9'' db_clinic) = db_clinic"
proof -
  have fk: "fk_ok db_clinic"
    by (simp add: fk_ok_def db_clinic_def db_order_def db_seeded_def empty_db_def
        patient_exists_def ex_patient_def ex_patient2_def ex_vitals_def ex_prescription_def
        ex_appointment_def ex_order_def ex_item_def ex_test_def)
  have p1: "patient_exists ''P1'' db_clinic"
    by (simp add: db_clinic_def patient_exists_def ex_patient_def)
  have p9: "\<not> patient_exists ''P9'' db_clinic"
    by (simp add: db_clinic_def patient_exists_def ex_patient_def ex_patient2_def)
  have refs: "references_patient ''P1'' db_clinic"
    by (simp add: references_patient_def db_clinic_def ex_vitals_def)
  have items: "lab_order_items (snd (patient_delete ''P1'' db_clinic)) = []"
    using p1 by (simp add: patient_delete_def cascade_delete_def Let_def db_clinic_def
        db_order_def db_seeded_def empty_db_def ex_order_def ex_item_def)
  show ?thesis
    using fk p1 p9 refs items
      patient_delete_cascade [of "''P1''" db_clinic] patient_delete_cascade [of "''P9''" db_clinic]
    by simp
qed

subsection \<open>Seeding the catalog\<close>

lemma init_db_empty_catalog:
  "lab_tests s = [] \<Longrightarrow> init_db (Some s) = (Some (NameError ''NULL''), s)"
  by (simp add: init_db_def seed_source_def eval_atom_def)

lemma init_db_seeded:
  "lab_tests s \<noteq> [] \<Longrightarrow> init_db (Some s) = (None, s)"
  by (simp add: init_db_def)

lemma serve_empty_catalog:
  "lab_tests s = [] \<Longrightarrow> serve rt now req s = (Uncaught (NameError ''NULL''), s)"
  by (simp add: serve_def ensure_db_def init_db_empty_catalog)

lemma serve_seeded:
  "lab_tests s \<noteq> [] \<Longrightarrow> serve rt now req s = handle rt now req s"
  by (simp add: serve_def ensure_db_def init_db_seeded)

text \<open>
  Claim C5. On a database without tables \<open>init_db\<close> creates the tables and then raises
  \<open>NameError\<close> while it builds the seed list: no row of the catalog is inserted.
\<close>

theorem init_db_fresh_raises:
  "init_db None = (Some (NameError ''NULL''), empty_db)
   \<and> lab_tests (snd (init_db None)) = []
   \<and> init_db (Some (snd (init_db None))) = (Some (NameError ''NULL''), empty_db)"
  by (simp add: init_db_def seed_source_def eval_atom_def empty_db_def)

subsection \<open>Latest vitals and the exports\<close>

lemma vitals_map_clinic:
  "vitals_map db_clinic ''P1'' = Some (ex_vitals 2 ''P1'' ''2024-03-03T09:00:00'')"
  "vitals_map db_clinic ''P2'' = None"
  by (simp_all add: vitals_map_def latest_vitals_rows_def latest_recorded_at_def db_clinic_def
      ex_vitals_def max_def)

lemma latest_recorded_at_Some:
  assumes "latest_recorded_at vs u = Some t"
  shows "(\<exists>v \<in> set vs. v_usn v = u \<and> v_recorded_at v = t)
         \<and> (\<forall>w \<in> set vs. v_usn w = u \<longrightarrow> v_recorded_at w \<le> t)"
proof -
  let ?ts = "map v_recorded_at (filter (\<lambda>v. v_usn v = u) vs)"
  from assms obtain a as where ts: "?ts = a # as" and t: "t = fold max as a"
    by (auto simp add: latest_recorded_at_def split: list.splits)
  have tmax: "t = Max (set ?ts)"
    unfolding ts t by (simp only: Max.set_eq_fold)
  have ne: "set ?ts \<noteq> {}" using ts by simp
  have "t \<in> set ?ts" unfolding tmax using ne by (intro Max_in) simp_all
  moreover have "\<And>x. x \<in> set ?ts \<Longrightarrow> x \<le> t" unfolding tmax by (intro Max_ge) simp_all
  ultimately show ?thesis by auto
qed

lemma latest_recorded_at_None:
  "latest_recorded_at vs u = None \<longleftrightarrow> u \<notin> set (map v_usn vs)"
proof -
  have "latest_recorded_at vs u = None \<longleftrightarrow> filter (\<lambda>v. v_usn v = u) vs = []"
    by (cases "filter (\<lambda>v. v_usn v = u) vs") (simp_all add: latest_recorded_at_def)
  also have "\<dots> \<longleftrightarrow> u \<notin> set (map v_usn vs)"
    by (auto simp add: filter_empty_conv)
  finally show ?thesis .
qed

lemma fold_upd_lookup:
  "fold (\<lambda>v m. m(f v \<mapsto> v)) xs m0 u =
     (case filter (\<lambda>v. f v = u) xs of [] \<Rightarrow> m0 u | y # ys \<Rightarrow> Some (last (y # ys)))"
proof -
  define g where "g = (\<lambda>v (m :: 'b \<rightharpoonup> 'a). m(f v \<mapsto> v))"
  have "fold g xs m0 u =
     (case filter (\<lambda>v. f v = u) xs of [] \<Rightarrow> m0 u | y # ys \<Rightarrow> Some (last (y # ys)))"
  proof (induction xs arbitrary: m0)
    case Nil
    then show ?case by simp
  next
    case (Cons x xs)
    have step: "fold g (x # xs) m0 u = fold g xs (g x m0) u" by simp
    have head: "g x m0 u = (if f x = u then Some x else m0 u)"
      by (auto simp add: g_def)
    show ?case
      unfolding step Cons.IH head by (simp split: list.splits)
  qed
  then show ?thesis by (simp add: g_def)
qed

lemma vitals_map_Some:
  assumes "vitals_map s u = Some v"
  shows "v \<in> set (vitals s) \<and> v_usn v = u
         \<and> (\<forall>w \<in> set (vitals s). v_usn w = u \<longrightarrow> v_recorded_at w \<le> v_recorded_at v)"
proof -
  let ?rows = "filter (\<lambda>x. v_usn x = u) (latest_vitals_rows (vitals s))"
  from assms obtain y ys where rows: "?rows = y # ys" and v: "v = last (y # ys)"
    by (auto simp add: vitals_map_def fold_upd_lookup split: list.splits)
  have "v \<in> set ?rows" unfolding rows v by (rule last_in_set) simp
  then have mem: "v \<in> set (vitals s)" and usn: "v_usn v = u"
    and latest: "latest_recorded_at (vitals s) (v_usn v) = Some (v_recorded_at v)"
    by (auto simp add: latest_vitals_rows_def)
  from latest_recorded_at_Some [OF latest] usn mem show ?thesis by simp
qed

lemma vitals_map_None: "vitals_map s u = None \<longleftrightarrow> u \<notin> set (map v_usn (vitals s))"
proof
  assume none: "vitals_map s u = None"
  show "u \<notin> set (map v_usn (vitals s))"
  proof
    assume "u \<in> set (map v_usn (vitals s))"
    then obtain t where t: "latest_recorded_at (vitals s) u = Some t"
      using latest_recorded_at_None [of "vitals s" u] by (cases "latest_recorded_at (vitals s) u") auto
    from latest_recorded_at_Some [OF t] obtain v where
      "v \<in> set (vitals s)" "v_usn v = u" "v_recorded_at v = t" by auto
    then have "v \<in> set (filter (\<lambda>x. v_usn x = u) (latest_vitals_rows (vitals s)))"
      using t by (simp add: latest_vitals_rows_def)
    then have "filter (\<lambda>x. v_usn x = u) (latest_vitals_rows (vitals s)) \<noteq> []"
      by (metis empty_iff empty_set)
    then show False using none
      by (simp add: vitals_map_def fold_upd_lookup split: list.splits)
  qed
next
  assume "u \<notin> set (map v_usn (vitals s))"
  then have "filter (\<lambda>x. v_usn x = u) (latest_vitals_rows (vitals s)) = []"
    by (auto simp add: latest_vitals_rows_def filter_empty_conv)
  then show "vitals_map s u = None"
    by (simp add: vitals_map_def fold_upd_lookup)
qed

lemma vitals_cells_Some: "vitals_cells str_real (Some row) = Inl IndexError"
  by (simp add: vitals_cells_def row_item_def vitals_row_items_def)

lemma vitals_cells_None:
  "vitals_cells str_real None = Inr [CText [], CText [], CText [], CText [], CText [], CText []]"
  by (simp add: vitals_cells_def)

lemma export_related_Some:
  "rs \<noteq> [] \<Longrightarrow> export_related str_real p (Some row) rs = Inl IndexError"
  by (cases rs) (simp_all add: vitals_cells_Some)

lemma export_patient_Some:
  "vitals_map s (p_usn p) = Some row \<Longrightarrow> export_patient str_real s p = Inl IndexError"
  by (simp add: export_patient_def Let_def vitals_cells_Some export_related_Some)

lemma export_related_None:
  "export_related str_real p None rs =
     Inr (map (\<lambda>r. patient_cells p
                    @ [CText [], CText [], CText [], CText [], CText [], CText []]
                    @ [CText (map (\<lambda>c. if c = CHR 0x0A then CHR '' '' else c) (rx_notes r)),
                       CText (rx_prescribed_at r)]) rs)"
  by (induction rs) (simp_all add: vitals_cells_None)

lemma export_patient_None:
  "vitals_map s (p_usn p) = None \<Longrightarrow> \<exists>rows. export_patient str_real s p = Inr rows \<and> rows \<noteq> []
     \<and> (\<forall>row \<in> set rows. take 6 row = patient_cells p
           \<and> take 6 (drop 6 row) = [CText [], CText [], CText [], CText [], CText [], CText []])"
  by (auto simp add: export_patient_def Let_def vitals_cells_None export_related_None
      patient_cells_def)

lemma export_patient_None_Inr:
  "vitals_map s (p_usn p) = None \<Longrightarrow> \<exists>rows. export_patient str_real s p = Inr rows"
  by (simp add: export_patient_def Let_def vitals_cells_None export_related_None)

lemma export_rows_raises:
  assumes "p \<in> set ps" "vitals_map s (p_usn p) = Some row"
  shows "export_rows str_real s ps = Inl IndexError"
  using assms
proof (induction ps)
  case Nil
  then show ?case by simp
next
  case (Cons q qs)
  show ?case
  proof (cases "vitals_map s (p_usn q)")
    case (Some r)
    then show ?thesis by (simp add: export_patient_Some)
  next
    case None
    then have "q \<noteq> p" using Cons.prems(2) by auto
    then have "export_rows str_real s qs = Inl IndexError"
      using Cons by simp
    moreover obtain rows where "export_patient str_real s q = Inr rows"
      using export_patient_None_Inr [OF None] by blast
    ultimately show ?thesis by (simp only: export_rows.simps sum.case)
  qed
qed

lemma export_csv_with_vitals:
  assumes "p \<in> set (patients s)" "p_usn p \<in> set (map v_usn (vitals s))"
  shows "export_csv str_real s = Inl IndexError"
proof -
  from assms(2) obtain row where "vitals_map s (p_usn p) = Some row"
    using vitals_map_None [of s "p_usn p"] by (cases "vitals_map s (p_usn p)") auto
  with assms(1) show ?thesis
    unfolding export_csv_def by (rule export_rows_raises)
qed

lemma complete_rows_of_nonempty: "complete_rows_of s p \<noteq> []"
  by (simp add: complete_rows_of_def Let_def)

lemma complete_rows_of_patient:
  "row \<in> set (complete_rows_of s p) \<Longrightarrow> cr_patient row = p"
  by (simp add: complete_rows_of_def Let_def split: if_splits) auto

lemma set_api_export_complete:
  "set (api_export_complete s) = (\<Union>p \<in> set (patients s). set (complete_rows_of s p))"
  by (simp add: api_export_complete_def)

lemma api_export_complete_all_patients:
  assumes "p \<in> set (patients s)"
  shows "\<exists>row \<in> set (api_export_complete s). cr_patient row = p"
proof -
  have "last (complete_rows_of s p) \<in> set (complete_rows_of s p)"
    by (rule last_in_set) (rule complete_rows_of_nonempty)
  moreover from this have "cr_patient (last (complete_rows_of s p)) = p"
    by (rule complete_rows_of_patient)
  ultimately show ?thesis
    unfolding set_api_export_complete using assms by blast
qed

lemma complete_rows_of_no_vitals:
  assumes "p_usn p \<notin> set (map v_usn (vitals s))"
  shows "complete_rows_of s p =
     [\<lparr> cr_patient = p, cr_latest_weight = None, cr_latest_height = None,
        cr_latest_bmi = None, cr_latest_bp = None, cr_latest_hr = None,
        cr_latest_temp = None, cr_total_vitals = 0,
        cr_total_prescriptions = length (filter (\<lambda>r. rx_usn r = p_usn p) (prescriptions s)) \<rparr>]"
proof -
  have none: "\<forall>v \<in> set (vitals s). v_usn v \<noteq> p_usn p"
    using assms by (auto simp add: image_iff)
  have "filter (\<lambda>v. v_usn v = p_usn p) (vitals s) = []"
    using none by (simp add: filter_empty_conv)
  moreover have "filter (\<lambda>v. v_usn v = p_usn p
                               \<and> Some (v_id v) = latest_vitals_id (vitals s) (p_usn p))
                     (vitals s) = []"
    using none by (simp add: filter_empty_conv)
  ultimately show ?thesis by (simp add: complete_rows_of_def Let_def)
qed

text \<open>
  Claim C7. In a store where one patient has vitals and another has none, \<open>export_csv\<close>
  raises \<open>IndexError\<close> when it reads the column \<open>blood_pressure\<close> of the latest vitals
  row, so the export holds no row at all, the patient without vitals included. The map
  \<open>vitals_map\<close> itself holds the record with the greatest timestamp for the first patient
  and no entry for the second.
\<close>

theorem export_csv_raises:
  "export_csv str_real db_clinic = Inl IndexError
   \<and> vitals_map db_clinic ''P1'' = Some (ex_vitals 2 ''P1'' ''2024-03-03T09:00:00'')
   \<and> vitals_map db_clinic ''P2'' = None
   \<and> ex_patient2 \<in> set (patients db_clinic)"
proof -
  have "ex_patient \<in> set (patients db_clinic)"
    and "p_usn ex_patient \<in> set (map v_usn (vitals db_clinic))"
    by (simp_all add: db_clinic_def ex_patient_def ex_vitals_def)
  then have "export_csv str_real db_clinic = Inl IndexError"
    by (rule export_csv_with_vitals)
  then show ?thesis
    by (simp add: vitals_map_clinic) (simp add: db_clinic_def)
qed

subsection \<open>Creating a patient\<close>




subsection \<open>Creating a lab order\<close>





subsection \<open>Creating an appointment\<close>




subsection \<open>The medication catalog\<close>

lemma upsert_medication_seen:
  assumes "find (\<lambda>m. m_name m = name) (medications s) = Some med"
  shows "upsert_medication name s = (m_id med, s)"
  using assms by (simp add: upsert_medication_def)

lemma upsert_medication_unseen:
  assumes "name \<notin> set (map m_name (medications s))"
  shows "upsert_medication name s =
     (next_rowid (map m_id (medications s)) (medications_seq s),
      s\<lparr> medications := medications s @
            [\<lparr> m_id = next_rowid (map m_id (medications s)) (medications_seq s),
               m_name = name, m_generic_name = None, m_form = None, m_strength = None,
               m_is_active = 1 \<rparr>],
          medications_seq := next_rowid (map m_id (medications s)) (medications_seq s) \<rparr>)"
proof -
  have "find (\<lambda>m. m_name m = name) (medications s) = None"
    using assms by (auto simp add: find_None_iff)
  then show ?thesis by (simp add: upsert_medication_def Let_def)
qed

lemma find_seen:
  assumes "name \<in> set (map m_name (medications s))"
  shows "\<exists>med. find (\<lambda>m. m_name m = name) (medications s) = Some med
           \<and> med \<in> set (medications s) \<and> m_name med = name"
proof (cases "find (\<lambda>m. m_name m = name) (medications s)")
  case None
  then show ?thesis using assms by (auto simp add: find_None_iff)
next
  case (Some med)
  then show ?thesis by (auto simp add: find_Some_iff)
qed

lemma find_append_list:
  "find P (xs @ ys) = (case find P xs of None \<Rightarrow> find P ys | Some x \<Rightarrow> Some x)"
  by (induction xs) simp_all

lemma upsert_medication_items [simp]:
  "prescription_items (snd (upsert_medication name s)) = prescription_items s"
  "prescriptions (snd (upsert_medication name s)) = prescriptions s"
  by (simp_all add: upsert_medication_def Let_def split: option.splits)

lemma upsert_medication_found_after:
  "\<exists>med. find (\<lambda>m. m_name m = name) (medications (snd (upsert_medication name s))) = Some med
         \<and> m_id med = fst (upsert_medication name s)"
proof (cases "name \<in> set (map m_name (medications s))")
  case True
  from find_seen [OF True] obtain med where
    "find (\<lambda>m. m_name m = name) (medications s) = Some med" by blast
  then show ?thesis by (simp add: upsert_medication_seen)
next
  case False
  then have "find (\<lambda>m. m_name m = name) (medications s) = None"
    by (auto simp add: find_None_iff)
  then show ?thesis
    by (simp add: upsert_medication_unseen [OF False] find_append_list)
qed

lemma prescription_item_create_cases:
  fixes form :: prescription_item_form and s :: db
  defines "name \<equiv> strip (or_empty (if_med_name form))"
  shows "(fst (prescription_item_create form s) \<noteq> Redirect_msg ''Medication added to prescription''
          \<and> snd (prescription_item_create form s) = s)
       \<or> (fst (prescription_item_create form s) = Redirect_msg ''Medication added to prescription''
          \<and> medications (snd (prescription_item_create form s))
              = medications (snd (upsert_medication name s))
          \<and> (\<exists>item. prescription_items (snd (prescription_item_create form s))
                       = prescription_items s @ [item]
                \<and> pi_medication_id item = fst (upsert_medication name s)))"
proof (cases "upsert_medication name s")
  case (Pair med_id s1)
  have s1: "prescription_items s1 = prescription_items s"
    using upsert_medication_items(1) [of name s] Pair by simp
  show ?thesis
    using Pair s1 unfolding name_def
    by (auto simp add: prescription_item_create_def Let_def split: option.splits)
qed

lemma medications_after_upsert:
  "medications (snd (upsert_medication name s)) = medications s
     \<and> name \<in> set (map m_name (medications s))
   \<or> (\<exists>med. medications (snd (upsert_medication name s)) = medications s @ [med]
         \<and> m_name med = name \<and> name \<notin> set (map m_name (medications s)))"
proof (cases "name \<in> set (map m_name (medications s))")
  case True
  from find_seen [OF True] obtain med where
    "find (\<lambda>m. m_name m = name) (medications s) = Some med" by blast
  then show ?thesis using True by (simp add: upsert_medication_seen)
next
  case False
  then show ?thesis by (simp add: upsert_medication_unseen [OF False])
qed

text \<open>
  Claim C8. When \<open>prescription_item_create\<close> adds an item, the medication name (trimmed,
  compared exactly) decides the catalog row: a name that no row of \<open>medications\<close> has
  adds exactly one row with that name and a fresh key, and the item refers to it; a name
  that a row has leaves the catalog as it is, and the item refers to a row with that name.
  A second successful call with the same name leaves the catalog unchanged and its item
  refers to the same row as the first. A call that adds no item leaves the store unchanged,
  so no call ever raises the number of rows with a given name above one.
\<close>

theorem prescription_item_medication:
  fixes form form2 :: prescription_item_form and s :: db
  defines "added \<equiv> Redirect_msg ''Medication added to prescription''"
    and "name \<equiv> strip (or_empty (if_med_name form))"
    and "s' \<equiv> snd (prescription_item_create form s)"
  defines "s'' \<equiv> snd (prescription_item_create form2 s')"
  shows
    "(fst (prescription_item_create form s) = added \<longrightarrow>
       (\<exists>item. prescription_items s' = prescription_items s @ [item]
          \<and> (name \<notin> set (map m_name (medications s)) \<longrightarrow>
               (\<exists>med. medications s' = medications s @ [med] \<and> m_name med = name
                  \<and> m_id med \<notin> set (map m_id (medications s))
                  \<and> pi_medication_id item = m_id med))
          \<and> (name \<in> set (map m_name (medications s)) \<longrightarrow>
               medications s' = medications s
               \<and> (\<exists>med \<in> set (medications s). m_name med = name
                     \<and> pi_medication_id item = m_id med))))
     \<and> (fst (prescription_item_create form s) \<noteq> added \<longrightarrow> s' = s)
     \<and> (fst (prescription_item_create form s) = added
          \<and> fst (prescription_item_create form2 s') = added
          \<and> strip (or_empty (if_med_name form2)) = name \<longrightarrow>
          medications s'' = medications s'
          \<and> pi_medication_id (last (prescription_items s''))
              = pi_medication_id (last (prescription_items s')))
     \<and> (\<forall>n. length (filter (\<lambda>m. m_name m = n) (medications s'))
            \<le> max 1 (length (filter (\<lambda>m. m_name m = n) (medications s))))"
proof -
  have part1: "fst (prescription_item_create form s) = added \<longrightarrow>
       (\<exists>item. prescription_items s' = prescription_items s @ [item]
          \<and> (name \<notin> set (map m_name (medications s)) \<longrightarrow>
               (\<exists>med. medications s' = medications s @ [med] \<and> m_name med = name
                  \<and> m_id med \<notin> set (map m_id (medications s))
                  \<and> pi_medication_id item = m_id med))
          \<and> (name \<in> set (map m_name (medications s)) \<longrightarrow>
               medications s' = medications s
               \<and> (\<exists>med \<in> set (medications s). m_name med = name
                     \<and> pi_medication_id item = m_id med)))"
  proof
  assume ok: "fst (prescription_item_create form s) = added"
  with prescription_item_create_cases [of form s]
  obtain item where meds: "medications s' = medications (snd (upsert_medication name s))"
    and items: "prescription_items s' = prescription_items s @ [item]"
    and med_id: "pi_medication_id item = fst (upsert_medication name s)"
    unfolding added_def name_def s'_def by auto
  have unseen: "\<exists>med. medications s' = medications s @ [med] \<and> m_name med = name
                  \<and> m_id med \<notin> set (map m_id (medications s))
                  \<and> pi_medication_id item = m_id med"
    if "name \<notin> set (map m_name (medications s))"
    unfolding meds med_id upsert_medication_unseen [OF that]
    using next_rowid_fresh [of "map m_id (medications s)" "medications_seq s"] by simp
  have seen: "medications s' = medications s
               \<and> (\<exists>med \<in> set (medications s). m_name med = name
                     \<and> pi_medication_id item = m_id med)"
    if "name \<in> set (map m_name (medications s))"
  proof -
    from find_seen [OF that] obtain med where
      med: "find (\<lambda>m. m_name m = name) (medications s) = Some med"
        "med \<in> set (medications s)" "m_name med = name" by blast
    show ?thesis
      unfolding meds med_id upsert_medication_seen [OF med(1)] using med(2,3) by auto
  qed
  show "\<exists>item. prescription_items s' = prescription_items s @ [item]
          \<and> (name \<notin> set (map m_name (medications s)) \<longrightarrow>
               (\<exists>med. medications s' = medications s @ [med] \<and> m_name med = name
                  \<and> m_id med \<notin> set (map m_id (medications s))
                  \<and> pi_medication_id item = m_id med))
          \<and> (name \<in> set (map m_name (medications s)) \<longrightarrow>
               medications s' = medications s
               \<and> (\<exists>med \<in> set (medications s). m_name med = name
                     \<and> pi_medication_id item = m_id med))"
    using items unseen seen by blast
  qed
  have part2: "fst (prescription_item_create form s) \<noteq> added \<longrightarrow> s' = s"
    using prescription_item_create_cases [of form s]
    unfolding added_def s'_def by auto
  have part3: "fst (prescription_item_create form s) = added
          \<and> fst (prescription_item_create form2 s') = added
          \<and> strip (or_empty (if_med_name form2)) = name \<longrightarrow>
          medications s'' = medications s'
          \<and> pi_medication_id (last (prescription_items s''))
              = pi_medication_id (last (prescription_items s'))"
  proof
  assume a: "fst (prescription_item_create form s) = added
          \<and> fst (prescription_item_create form2 s') = added
          \<and> strip (or_empty (if_med_name form2)) = name"
  from a prescription_item_create_cases [of form s]
  obtain item where meds: "medications s' = medications (snd (upsert_medication name s))"
    and items: "prescription_items s' = prescription_items s @ [item]"
    and med_id: "pi_medication_id item = fst (upsert_medication name s)"
    unfolding added_def name_def s'_def by auto
  from a prescription_item_create_cases [of form2 s']
  obtain item2 where meds2: "medications s'' = medications (snd (upsert_medication name s'))"
    and items2: "prescription_items s'' = prescription_items s' @ [item2]"
    and med_id2: "pi_medication_id item2 = fst (upsert_medication name s')"
    unfolding added_def s''_def by auto
  from upsert_medication_found_after [of name s] obtain med where
    med: "find (\<lambda>m. m_name m = name) (medications s') = Some med"
      "m_id med = fst (upsert_medication name s)"
    unfolding meds by blast
  have again: "upsert_medication name s' = (m_id med, s')"
    using med(1) by (rule upsert_medication_seen)
  show "medications s'' = medications s'
          \<and> pi_medication_id (last (prescription_items s''))
              = pi_medication_id (last (prescription_items s'))"
    by (simp add: meds2 items2 med_id2 again items med_id med(2))
  qed
  have part4: "\<forall>n. length (filter (\<lambda>m. m_name m = n) (medications s'))
            \<le> max 1 (length (filter (\<lambda>m. m_name m = n) (medications s)))"
  proof
  fix n
  from prescription_item_create_cases [of form s]
  have "medications s' = medications s
        \<or> medications s' = medications (snd (upsert_medication name s))"
    unfolding s'_def name_def by auto
  moreover have "length (filter (\<lambda>m. m_name m = n) (medications (snd (upsert_medication name s))))
            \<le> max 1 (length (filter (\<lambda>m. m_name m = n) (medications s)))"
  proof -
    from medications_after_upsert [of name s] consider
      (same) "medications (snd (upsert_medication name s)) = medications s"
      | (new) med where "medications (snd (upsert_medication name s)) = medications s @ [med]"
          "m_name med = name" "name \<notin> set (map m_name (medications s))"
      by blast
    then show ?thesis
    proof cases
      case same
      then show ?thesis by simp
    next
      case new
      have "\<forall>m \<in> set (medications s). m_name m \<noteq> name"
        using new(3) by (auto simp add: image_iff)
      then have "filter (\<lambda>m. m_name m = name) (medications s) = []"
        by (simp add: filter_empty_conv)
      then show ?thesis using new(1,2) by (cases "n = name") simp_all
    qed
  qed
  ultimately show "length (filter (\<lambda>m. m_name m = n) (medications s'))
            \<le> max 1 (length (filter (\<lambda>m. m_name m = n) (medications s)))"
    by auto
  qed
  show ?thesis by (intro conjI part1 part2 part3 part4)
qed


theorem prescription_item_medication_witness:
  "fst (prescription_item_create
         \<lparr> if_prescription_id = Some ''1'', if_med_name = Some ''Aspirin'',
           if_dose = Some ''75 mg'', if_route = Some ''oral'', if_frequency = Some ''daily'',
           if_duration_days = Some ''30'', if_instructions = None \<rparr> db_clinic)
     = Redirect_msg ''Medication added to prescription''
   \<and> map m_name (medications (snd (prescription_item_create
         \<lparr> if_prescription_id = Some ''1'', if_med_name = Some ''Aspirin'',
           if_dose = Some ''75 mg'', if_route = Some ''oral'', if_frequency = Some ''daily'',
           if_duration_days = Some ''30'', if_instructions = None \<rparr> db_clinic)))
     = [''Aspirin'']
   \<and> map m_name (medications (snd (prescription_item_create
         \<lparr> if_prescription_id = Some ''1'', if_med_name = Some '' Aspirin '',
           if_dose = None, if_route = None, if_frequency = None,
           if_duration_days = Some ''soon'', if_instructions = None \<rparr>
         (snd (prescription_item_create
           \<lparr> if_prescription_id = Some ''1'', if_med_name = Some ''Aspirin'',
             if_dose = Some ''75 mg'', if_route = Some ''oral'', if_frequency = Some ''daily'',
             if_duration_days = Some ''30'', if_instructions = None \<rparr> db_clinic)))))
     = [''Aspirin'']
   \<and> map pi_medication_id (prescription_items (snd (prescription_item_create
         \<lparr> if_prescription_id = Some ''1'', if_med_name = Some '' Aspirin '',
           if_dose = None, if_route = None, if_frequency = None,
           if_duration_days = Some ''soon'', if_instructions = None \<rparr>
         (snd (prescription_item_create
           \<lparr> if_prescription_id = Some ''1'', if_med_name = Some ''Aspirin'',
             if_dose = Some ''75 mg'', if_route = Some ''oral'', if_frequency = Some ''daily'',
             if_duration_days = Some ''30'', if_instructions = None \<rparr> db_clinic)))))
     = [1, 1]"
  using prescription_item_medication [where s = db_clinic
      and form = "\<lparr> if_prescription_id = Some ''1'', if_med_name = Some ''Aspirin'',
           if_dose = Some ''75 mg'', if_route = Some ''oral'', if_frequency = Some ''daily'',
           if_duration_days = Some ''30'', if_instructions = None \<rparr>"
      and ?form2.0 = "\<lparr> if_prescription_id = Some ''1'', if_med_name = Some '' Aspirin '',
           if_dose = None, if_route = None, if_frequency = None,
           if_duration_days = Some ''soon'', if_instructions = None \<rparr>"]
  by (simp add: prescription_item_create_def upsert_medication_def Let_def py_int_def
      int_isspace_def int_max_str_digits_def sqlite_int_def sqlite_int_opt_def
      strip_def py_isspace_def int_unsigned_def digit_of_def or_empty_def or_none_def
      db_clinic_def db_order_def db_seeded_def empty_db_def ex_prescription_def next_rowid_def)

end
